theory Spec2Isabelle
  imports Complex_Main
begin

section \<open>Values shared by the service clients\<close>

text \<open>
  A thrown JavaScript value.  The clients only ever read the \<open>message\<close> property of what
  they catch, which may be absent.
\<close>

datatype thrown = Thrown (message: "string option")

definition Error :: "string \<Rightarrow> thrown" where
  "Error m = Thrown (Some m)"

text \<open>The interface \<open>ImageData\<close> of the service module.  Its \<open>data\<close> is declared a string; the
  callers fill it from \<open>split(',')[1]\<close>, which is \<open>undefined\<close> (here \<open>None\<close>) on a string without
  a comma.\<close>

record ImageData =
  data :: "string option"
  mimeType :: string

text \<open>The inline blob of a response part.  The client returns its \<open>data\<close> as a string.\<close>

record Blob =
  blobData :: string
  blobMimeType :: string

text \<open>JavaScript truthiness of a value of type \<open>string | undefined\<close>: present and non-empty.\<close>

definition truthy :: "string option \<Rightarrow> bool" where
  "truthy v = (case v of None \<Rightarrow> False | Some s \<Rightarrow> s \<noteq> [])"

section \<open>The image editing client: \<open>removeWatermarkFromImage\<close>\<close>

record Part =
  inlineData :: "Blob option"
  partText :: "string option"

record RequestPart =
  reqInlineData :: "ImageData option"
  reqText :: "string option"

record Content =
  parts :: "Part list option"

record Candidate =
  content :: "Content option"

record GenerateContentResponse =
  candidates :: "Candidate list option"

datatype Modality = IMAGE | TEXT | AUDIO

record GenerateContentRequest =
  contentModel :: string
  contents :: "RequestPart list"
  responseModalities :: "Modality list"

text \<open>The fixed instruction sent with every image, as the bytes of its UTF-8 encoding.\<close>

definition removalInstruction :: string where
  "removalInstruction =
    [CHR 0xD8, CHR 0xA7, CHR 0xD8, CHR 0xB2, CHR 0xD9, CHR 0x84, CHR 0x20, CHR 0xD8, CHR 0xA7,
     CHR 0xD9, CHR 0x84, CHR 0xD8, CHR 0xB9, CHR 0xD9, CHR 0x84, CHR 0xD8, CHR 0xA7, CHR 0xD9,
     CHR 0x85, CHR 0xD8, CHR 0xA9, CHR 0x20, CHR 0xD8, CHR 0xA7, CHR 0xD9, CHR 0x84, CHR 0xD9,
     CHR 0x85, CHR 0xD8, CHR 0xA7, CHR 0xD8, CHR 0xA6, CHR 0xD9, CHR 0x8A, CHR 0xD8, CHR 0xA9,
     CHR 0x20, CHR 0xD9, CHR 0x85, CHR 0xD9, CHR 0x86, CHR 0x20, CHR 0xD9, CHR 0x87, CHR 0xD8,
     CHR 0xB0, CHR 0xD9, CHR 0x87, CHR 0x20, CHR 0xD8, CHR 0xA7, CHR 0xD9, CHR 0x84, CHR 0xD8,
     CHR 0xB5, CHR 0xD9, CHR 0x88, CHR 0xD8, CHR 0xB1, CHR 0xD8, CHR 0xA9]"

definition editRequest :: "ImageData \<Rightarrow> GenerateContentRequest" where
  "editRequest imageData =
    \<lparr> contentModel = ''gemini-2.5-flash-image'',
      contents =
        [ \<lparr> reqInlineData = Some \<lparr> data = data imageData, mimeType = mimeType imageData \<rparr>,
            reqText = None \<rparr>,
          \<lparr> reqInlineData = None, reqText = Some removalInstruction \<rparr> ],
      responseModalities = [IMAGE] \<rparr>"

text \<open>An argument of \<open>console.error\<close> after the label: a string or a caught value.\<close>

datatype logarg = LStr string | LErr thrown

text \<open>\<open>response.candidates?.[0]?.content?.parts || []\<close>\<close>

definition firstCandidateParts :: "GenerateContentResponse \<Rightarrow> Part list" where
  "firstCandidateParts r =
    (case candidates r of
       None \<Rightarrow> []
     | Some [] \<Rightarrow> []
     | Some (c # _) \<Rightarrow>
        (case content c of
           None \<Rightarrow> []
         | Some ct \<Rightarrow> (case parts ct of None \<Rightarrow> [] | Some ps \<Rightarrow> ps)))"

text \<open>The \<open>for\<close> loop over the parts: the first part with an inline blob ends the function
  with that blob's data; falling out of the loop gives \<open>null\<close>, here \<open>None\<close>.\<close>

fun scanParts :: "Part list \<Rightarrow> string option" where
  "scanParts [] = None"
| "scanParts (p # ps) =
    (case inlineData p of Some blob \<Rightarrow> Some (blobData blob) | None \<Rightarrow> scanParts ps)"

text \<open>
  \<open>removeWatermarkFromImage\<close>.  The environment variable \<open>API_KEY\<close> and the remote call
  \<open>ai.models.generateContent\<close> are parameters; the remote call either throws or answers.
  The result pairs the lines logged with \<open>console.error\<close> and the outcome of the promise:
  \<open>Inl\<close> a rejection, \<open>Inr None\<close> the value \<open>null\<close>, \<open>Inr (Some d)\<close> a string.
\<close>

definition removeWatermarkFromImage ::
  "string option \<Rightarrow> (GenerateContentRequest \<Rightarrow> thrown + GenerateContentResponse) \<Rightarrow>
   ImageData \<Rightarrow> (string \<times> logarg) list \<times> (thrown + string option)" where
  "removeWatermarkFromImage apiKey generateContent imageData =
    (if \<not> truthy apiKey then ([], Inl (Error ''API_KEY environment variable is not set''))
     else
       (case generateContent (editRequest imageData) of
          Inr response \<Rightarrow> ([], Inr (scanParts (firstCandidateParts response)))
        | Inl error \<Rightarrow>
            ([(''Error calling Gemini API for image editing:'', LErr error)],
             Inl (Error ''Failed to process image with Gemini API.''))))"


section \<open>The video generation client: \<open>generateVideoFromFrame\<close>\<close>

record Video =
  uri :: "string option"

record GeneratedVideo =
  video :: "Video option"

record GenerateVideosResponse =
  generatedVideos :: "GeneratedVideo list option"

text \<open>The job handle.  \<open>operation.done\<close> is read for its truthiness only, so an absent flag is
  \<open>False\<close>.\<close>

record GenerateVideosOperation =
  op_done :: bool
  response :: "GenerateVideosResponse option"

record Image =
  imageBytes :: "string option"
  imageMimeType :: string

record GenerateVideosRequest =
  videoModel :: string
  prompt :: string
  image :: Image
  numberOfVideos :: nat
  resolution :: string
  aspectRatio :: string

text \<open>The transport response of \<open>fetch\<close>; reading its body as text or as a blob may throw.\<close>

record Response =
  ok :: bool
  status :: nat
  responseText :: "thrown + string"
  responseBlob :: "thrown + string"

text \<open>
  The remote collaborators.  The job changes on the server between two queries, so the
  answer of \<open>getVideosOperation\<close> depends on how many queries came before it.
\<close>

record VideoService =
  generateVideos :: "GenerateVideosRequest \<Rightarrow> thrown + GenerateVideosOperation"
  getVideosOperation :: "nat \<Rightarrow> GenerateVideosOperation \<Rightarrow> thrown + GenerateVideosOperation"
  fetch :: "string \<Rightarrow> thrown + Response"

text \<open>
  What the client does to the outside world, in program order: calls of the remote service,
  timer suspensions (in milliseconds), fetches and lines written with \<open>console.error\<close>.
\<close>

datatype effect =
    GenerateVideosCall GenerateVideosRequest
  | SetTimeout nat
  | GetVideosOperationCall GenerateVideosOperation
  | FetchCall string
  | ConsoleError string logarg

text \<open>
  The quotient \<open>width / height\<close> of two JavaScript numbers that hold integers.  Division by
  zero gives an infinity or \<open>NaN\<close>.  Integers below \<open>2 ^ 53\<close> are held exactly and the
  rounded quotient of two of them compares with 1 as the exact quotient does, so the finite
  case keeps the exact quotient.
\<close>

datatype jsnum = Finite rat | PlusInfinity | MinusInfinity | NaN

definition js_div :: "int \<Rightarrow> int \<Rightarrow> jsnum" where
  "js_div a b =
    (if b = 0 then (if 0 < a then PlusInfinity else if a < 0 then MinusInfinity else NaN)
     else Finite (of_int a / of_int b))"

fun js_gt :: "jsnum \<Rightarrow> rat \<Rightarrow> bool" where
  "js_gt (Finite r) c = (c < r)"
| "js_gt PlusInfinity c = True"
| "js_gt MinusInfinity c = False"
| "js_gt NaN c = False"

fun js_le :: "jsnum \<Rightarrow> rat \<Rightarrow> bool" where
  "js_le (Finite r) c = (r \<le> c)"
| "js_le PlusInfinity c = False"
| "js_le MinusInfinity c = True"
| "js_le NaN c = False"

definition aspectRatioOf :: "int \<Rightarrow> int \<Rightarrow> string" where
  "aspectRatioOf width height =
    (let ratio = js_div width height in if js_gt ratio 1 then ''16:9'' else ''9:16'')"

definition videoRequest :: "ImageData \<Rightarrow> int \<Rightarrow> int \<Rightarrow> GenerateVideosRequest" where
  "videoRequest imageData width height =
    \<lparr> videoModel = ''veo-3.1-fast-generate-preview'',
      prompt = ''Recreate a high-quality, realistic video based on this initial frame. The video should be a seamless continuation of the scene shown in the image.'',
      image = \<lparr> imageBytes = data imageData, imageMimeType = mimeType imageData \<rparr>,
      numberOfVideos = 1,
      resolution = ''720p'',
      aspectRatio = aspectRatioOf width height \<rparr>"

text \<open>
  The loop \<open>while (!operation.done)\<close>.  Each round suspends for 10000 ms and then queries the
  job with the handle it holds; a query that throws leaves the loop with the thrown value.
  The loop has no bound of its own and runs forever on a job that is never done, so the
  model runs at most \<open>fuel\<close> rounds: it gives the effects so far and \<open>None\<close> when the loop
  is still running after them.  \<open>k\<close> counts the queries made before and \<open>tr\<close> collects the
  effects.
\<close>

fun pollLoop ::
  "nat \<Rightarrow> (nat \<Rightarrow> GenerateVideosOperation \<Rightarrow> thrown + GenerateVideosOperation) \<Rightarrow> nat \<Rightarrow>
   GenerateVideosOperation \<Rightarrow> effect list \<Rightarrow>
   effect list \<times> (thrown + GenerateVideosOperation) option"
where
  "pollLoop fuel getOp k operation tr =
    (if op_done operation then (tr, Some (Inr operation))
     else
       (case fuel of
          0 \<Rightarrow> (tr, None)
        | Suc fuel' \<Rightarrow>
           (case getOp k operation of
              Inl error \<Rightarrow>
                (tr @ [SetTimeout 10000, GetVideosOperationCall operation], Some (Inl error))
            | Inr operation' \<Rightarrow>
                pollLoop fuel' getOp (Suc k) operation'
                  (tr @ [SetTimeout 10000, GetVideosOperationCall operation]))))"

text \<open>The two effects of one round of the loop, and the effects that only the loop has.\<close>

definition pollRound :: "GenerateVideosOperation \<Rightarrow> effect list" where
  "pollRound operation = [SetTimeout 10000, GetVideosOperationCall operation]"

fun isPollEffect :: "effect \<Rightarrow> bool" where
  "isPollEffect (SetTimeout _) = True"
| "isPollEffect (GetVideosOperationCall _) = True"
| "isPollEffect _ = False"

text \<open>
  The answers of the service along a list of handles: \<open>answerChain\<close> holds when every handle
  but the last was answered with the next one, the first being queried as query \<open>k\<close>.
  \<open>lastAnswer\<close> is what the loop knows after it has queried these handles: the answer to
  the last one, or the handle it started with when it has queried none.  \<open>pollEnds\<close> tells
  whether such an answer ends the loop: a thrown value or a status that is done.
\<close>

fun answerChain ::
  "(nat \<Rightarrow> GenerateVideosOperation \<Rightarrow> thrown + GenerateVideosOperation) \<Rightarrow> nat \<Rightarrow>
   GenerateVideosOperation list \<Rightarrow> bool" where
  "answerChain g k (p # q # qs) = (g k p = Inr q \<and> answerChain g (Suc k) (q # qs))"
| "answerChain g k qs = True"

definition lastAnswer ::
  "(nat \<Rightarrow> GenerateVideosOperation \<Rightarrow> thrown + GenerateVideosOperation) \<Rightarrow> nat \<Rightarrow>
   GenerateVideosOperation \<Rightarrow> GenerateVideosOperation list \<Rightarrow> thrown + GenerateVideosOperation" where
  "lastAnswer g k operation ops =
    (if ops = [] then Inr operation else g (k + length ops - 1) (last ops))"

definition pollEnds :: "thrown + GenerateVideosOperation \<Rightarrow> bool" where
  "pollEnds a = (case a of Inl e \<Rightarrow> True | Inr q \<Rightarrow> op_done q)"

fun isSubmit :: "effect \<Rightarrow> bool" where
  "isSubmit (GenerateVideosCall _) = True"
| "isSubmit _ = False"

text \<open>\<open>operation.response?.generatedVideos?.[0]?.video?.uri\<close>\<close>

definition downloadLinkOf :: "GenerateVideosOperation \<Rightarrow> string option" where
  "downloadLinkOf operation =
    (case response operation of
       None \<Rightarrow> None
     | Some r \<Rightarrow>
        (case generatedVideos r of
           None \<Rightarrow> None
         | Some [] \<Rightarrow> None
         | Some (g # _) \<Rightarrow> (case video g of None \<Rightarrow> None | Some v \<Rightarrow> uri v)))"

text \<open>\<open>String(n)\<close> for a natural number: its decimal digits.\<close>

fun digitsOf :: "nat \<Rightarrow> string" where
  "digitsOf n =
    (if n < 10 then [char_of (48 + n)] else digitsOf (n div 10) @ [char_of (48 + n mod 10)])"

text \<open>The two errors the client raises itself after the loop.\<close>

definition missingLinkError :: thrown where
  "missingLinkError = Error ''Video generation succeeded, but no download link was provided.''"

definition downloadError :: "nat \<Rightarrow> thrown" where
  "downloadError n = Error (''Failed to download the generated video. Status: '' @ digitsOf n)"

text \<open>The part of the \<open>try\<close> block after the loop: the download of the finished video.\<close>

definition download ::
  "string \<Rightarrow> (string \<Rightarrow> thrown + Response) \<Rightarrow> GenerateVideosOperation \<Rightarrow>
   effect list \<times> (thrown + string)" where
  "download apiKey fetchFn operation =
    (let downloadLink = downloadLinkOf operation in
     if \<not> truthy downloadLink
     then ([], Inl missingLinkError)
     else
       (let url = the downloadLink @ ''&key='' @ apiKey in
        case fetchFn url of
          Inl error \<Rightarrow> ([FetchCall url], Inl error)
        | Inr resp \<Rightarrow>
            if \<not> ok resp then
              (case responseText resp of
                 Inl error \<Rightarrow> ([FetchCall url], Inl error)
               | Inr errorBody \<Rightarrow>
                   ([FetchCall url, ConsoleError ''Failed to download video:'' (LStr errorBody)],
                    Inl (downloadError (status resp))))
            else
              (case responseBlob resp of
                 Inl error \<Rightarrow> ([FetchCall url], Inl error)
               | Inr videoBlob \<Rightarrow> ([FetchCall url], Inr videoBlob))))"

text \<open>The body of the \<open>try\<close> block: submission, loop, download.\<close>

definition tryBody ::
  "nat \<Rightarrow> string \<Rightarrow> VideoService \<Rightarrow> ImageData \<Rightarrow> int \<Rightarrow> int \<Rightarrow>
   effect list \<times> (thrown + string) option" where
  "tryBody fuel apiKey svc imageData width height =
    (let request = videoRequest imageData width height in
     case generateVideos svc request of
       Inl error \<Rightarrow> ([GenerateVideosCall request], Some (Inl error))
     | Inr operation0 \<Rightarrow>
         (case pollLoop fuel (getVideosOperation svc) 0 operation0 [GenerateVideosCall request] of
            (tr, None) \<Rightarrow> (tr, None)
          | (tr, Some (Inl error)) \<Rightarrow> (tr, Some (Inl error))
          | (tr, Some (Inr operation)) \<Rightarrow>
              (let (tr', r) = download apiKey (fetch svc) operation in (tr @ tr', Some r))))"

text \<open>\<open>haystack.includes(needle)\<close>\<close>

fun includesStr :: "string \<Rightarrow> string \<Rightarrow> bool" where
  "includesStr [] needle = (needle = [])"
| "includesStr (c # cs) needle = (take (length needle) (c # cs) = needle \<or> includesStr cs needle)"

text \<open>The \<open>catch\<close> block: the condition on the caught value and the error thrown in its place.\<close>

definition entityNotFound :: "thrown \<Rightarrow> bool" where
  "entityNotFound error =
    (case message error of
       None \<Rightarrow> False
     | Some m \<Rightarrow> m \<noteq> [] \<and> includesStr m ''Requested entity was not found'')"

definition catchBlock :: "thrown \<Rightarrow> effect list \<times> thrown" where
  "catchBlock error =
    ([ConsoleError ''Error calling Veo API:'' (LErr error)],
     if entityNotFound error then Error ''API_KEY_INVALID''
     else Error ''Failed to process video with Veo API.'')"




text \<open>
  \<open>generateVideoFromFrame\<close>: the effects in program order and the outcome of the promise
  (\<open>Inl\<close> a rejection, \<open>Inr\<close> the bytes of the video), or \<open>None\<close> when the loop is still
  running after \<open>fuel\<close> rounds.
\<close>

definition generateVideoFromFrame ::
  "nat \<Rightarrow> string option \<Rightarrow> VideoService \<Rightarrow> ImageData \<Rightarrow> int \<Rightarrow> int \<Rightarrow>
   effect list \<times> (thrown + string) option" where
  "generateVideoFromFrame fuel apiKey svc imageData width height =
    (if \<not> truthy apiKey then ([], Some (Inl (Error ''API_KEY environment variable is not set'')))
     else
       (case tryBody fuel (the apiKey) svc imageData width height of
          (tr, None) \<Rightarrow> (tr, None)
        | (tr, Some (Inr videoBlob)) \<Rightarrow> (tr, Some (Inr videoBlob))
        | (tr, Some (Inl error)) \<Rightarrow>
            (let (tr', error') = catchBlock error in (tr @ tr', Some (Inl error')))))"

section \<open>File utilities: \<open>fileToBase64\<close> and \<open>extractFirstFrame\<close>\<close>

record File =
  fileName :: string
  fileType :: string

text \<open>\<open>s.split(sep)\<close> for a one-character separator, and \<open>s.split(',')[1]\<close>, which is
  \<open>undefined\<close> (here \<open>None\<close>) when the string has no comma.\<close>

fun jsSplit :: "char \<Rightarrow> string \<Rightarrow> string list" where
  "jsSplit sep [] = [[]]"
| "jsSplit sep (c # cs) =
    (if c = sep then [] # jsSplit sep cs
     else (let r = jsSplit sep cs in (c # hd r) # tl r))"

definition secondField :: "string \<Rightarrow> string option" where
  "secondField s = (case jsSplit (CHR '','') s of _ # b # _ \<Rightarrow> Some b | _ \<Rightarrow> None)"

text \<open>What \<open>reader.result\<close> holds when \<open>onload\<close> fires: a string or something else.\<close>

datatype ReaderResult = ResultString string | ResultOther

text \<open>\<open>fileToBase64\<close>.  The parameter is the file reader: it fires \<open>onerror\<close> (\<open>Inl\<close>) or
  \<open>onload\<close> with its result.\<close>

definition fileToBase64 :: "(File \<Rightarrow> thrown + ReaderResult) \<Rightarrow> File \<Rightarrow> thrown + ImageData" where
  "fileToBase64 readAsDataURL file =
    (case readAsDataURL file of
       Inl error \<Rightarrow> Inl error
     | Inr (ResultString result) \<Rightarrow> Inr \<lparr> data = secondField result, mimeType = fileType file \<rparr>
     | Inr ResultOther \<Rightarrow> Inl (Error ''Failed to read file as base64 string.''))"

text \<open>
  \<open>extractFirstFrame\<close> is a promise driven by the events of an off-screen video element.
  The element carries the properties the handlers read and write and the length of the
  media; \<open>currentTime\<close> and \<open>duration\<close> are in seconds.
\<close>

record VideoElement =
  videoWidth :: nat
  videoHeight :: nat
  duration :: rat
  currentTime :: rat
  seeking :: bool

text \<open>
  The setter of \<open>currentTime\<close>: the element starts a seek, which \<open>seeking\<close> records, to the
  position asked for, moved into the media when it lies before its start or after its end.
\<close>

definition setCurrentTime :: "rat \<Rightarrow> VideoElement \<Rightarrow> VideoElement" where
  "setCurrentTime v el = el \<lparr> currentTime := max 0 (min v (duration el)), seeking := True \<rparr>"

text \<open>Playback, which \<open>video.play()\<close> starts, moves the position forward by \<open>d\<close> seconds and
  stops at the end of the media.\<close>

definition advance :: "rat \<Rightarrow> VideoElement \<Rightarrow> VideoElement" where
  "advance d el = el \<lparr> currentTime := min (duration el) (currentTime el + d) \<rparr>"

record Frame =
  frameData :: "string option"
  frameMimeType :: string
  frameWidth :: nat
  frameHeight :: nat

datatype outcome = Resolved Frame | Rejected thrown

text \<open>What the handlers do to the page, in program order.  \<open>DrawImage t w h\<close> paints the
  frame the element shows at position \<open>t\<close> onto a canvas of \<open>w\<close> by \<open>h\<close> pixels.\<close>

datatype dom_effect =
    Pause
  | RemoveSrc
  | Load
  | RevokeObjectURL string
  | DrawImage rat nat nat
  | ResolveCall Frame
  | RejectCall thrown

text \<open>The closure of one call: the guard \<open>resolved\<close>, the element, the temporary URL, the
  state of the promise (\<open>None\<close> while pending) and the effects so far.\<close>

record ExtractState =
  resolved :: bool
  element :: VideoElement
  videoUrl :: string
  settled :: "outcome option"
  domEffects :: "dom_effect list"

text \<open>The events the element delivers.  \<open>Seeked c\<close> carries what the canvas gives the handler:
  \<open>None\<close> when \<open>getContext('2d')\<close> is \<open>null\<close>, otherwise the string \<open>toDataURL\<close> returns.
  \<open>PlayRejected\<close> is the rejection of the promise of \<open>video.play()\<close>.  \<open>Played d\<close> is not an
  event with a handler: it is the playback that goes on between two events.\<close>

datatype media_event =
    LoadedData
  | Seeked "string option"
  | ErrorEvent thrown
  | PlayRejected thrown
  | Played rat

text \<open>The closure when the promise is created, for a video of \<open>w\<close> by \<open>h\<close> pixels that lasts
  \<open>dur\<close> seconds.\<close>

definition initialState :: "string \<Rightarrow> nat \<Rightarrow> nat \<Rightarrow> rat \<Rightarrow> ExtractState" where
  "initialState u w h dur =
    \<lparr> resolved = False,
      element = \<lparr> videoWidth = w, videoHeight = h, duration = dur, currentTime = 0,
                  seeking = False \<rparr>,
      videoUrl = u, settled = None, domEffects = [] \<rparr>"

text \<open>\<open>resolve\<close> and \<open>reject\<close> of the promise: only the first call settles it.\<close>

definition resolve :: "Frame \<Rightarrow> ExtractState \<Rightarrow> ExtractState" where
  "resolve v st =
    st \<lparr> domEffects := domEffects st @ [ResolveCall v],
         settled := (case settled st of None \<Rightarrow> Some (Resolved v) | Some x \<Rightarrow> Some x) \<rparr>"

definition reject :: "thrown \<Rightarrow> ExtractState \<Rightarrow> ExtractState" where
  "reject err st =
    st \<lparr> domEffects := domEffects st @ [RejectCall err],
         settled := (case settled st of None \<Rightarrow> Some (Rejected err) | Some x \<Rightarrow> Some x) \<rparr>"

definition cleanup :: "ExtractState \<Rightarrow> ExtractState" where
  "cleanup st =
    st \<lparr> domEffects := domEffects st @ [Pause, RemoveSrc, Load, RevokeObjectURL (videoUrl st)] \<rparr>"

definition onloadeddata :: "ExtractState \<Rightarrow> ExtractState" where
  "onloadeddata st = st \<lparr> element := setCurrentTime (1 / 10) (element st) \<rparr>"

definition onseeked :: "string option \<Rightarrow> ExtractState \<Rightarrow> ExtractState" where
  "onseeked canvas st =
    (if resolved st then st
     else
       (let st1 = st \<lparr> resolved := True \<rparr>;
            w = videoWidth (element st1);
            h = videoHeight (element st1)
        in case canvas of
             None \<Rightarrow> reject (Error ''Could not get canvas context.'') (cleanup st1)
           | Some dataUrl \<Rightarrow>
               (let st2 = st1 \<lparr> domEffects :=
                                  domEffects st1 @ [DrawImage (currentTime (element st1)) w h] \<rparr>;
                    st3 = cleanup st2;
                    base64String = secondField dataUrl
                in resolve \<lparr> frameData = base64String, frameMimeType = ''image/jpeg'',
                             frameWidth = w, frameHeight = h \<rparr> st3)))"

definition onerror :: "thrown \<Rightarrow> ExtractState \<Rightarrow> ExtractState" where
  "onerror err st = (if resolved st then st else reject err (cleanup st))"

definition onPlayRejected :: "thrown \<Rightarrow> ExtractState \<Rightarrow> ExtractState" where
  "onPlayRejected err st = (if resolved st then st else reject err (cleanup st))"

text \<open>Delivery of one event.  The element ends the seek before it fires \<open>seeked\<close>.\<close>

fun dispatch :: "media_event \<Rightarrow> ExtractState \<Rightarrow> ExtractState" where
  "dispatch LoadedData st = onloadeddata st"
| "dispatch (Seeked canvas) st = onseeked canvas (st \<lparr> element := (element st) \<lparr> seeking := False \<rparr> \<rparr>)"
| "dispatch (ErrorEvent err) st = onerror err st"
| "dispatch (PlayRejected err) st = onPlayRejected err st"
| "dispatch (Played d) st = st \<lparr> element := advance d (element st) \<rparr>"

fun runEvents :: "media_event list \<Rightarrow> ExtractState \<Rightarrow> ExtractState" where
  "runEvents [] st = st"
| "runEvents (e # es) st = runEvents es (dispatch e st)"

definition extractFirstFrame ::
  "string \<Rightarrow> nat \<Rightarrow> nat \<Rightarrow> rat \<Rightarrow> media_event list \<Rightarrow> ExtractState" where
  "extractFirstFrame u w h dur events = runEvents events (initialState u w h dur)"

text \<open>An element fires \<open>seeked\<close> only to end a seek, and playback never moves the position
  backwards: event sequences of a real element satisfy \<open>seekedAfterSeek\<close>.\<close>

fun seekedAfterSeek :: "ExtractState \<Rightarrow> media_event list \<Rightarrow> bool" where
  "seekedAfterSeek st [] = True"
| "seekedAfterSeek st (e # es) =
    ((case e of Seeked _ \<Rightarrow> seeking (element st) | Played d \<Rightarrow> 0 \<le> d | _ \<Rightarrow> True)
     \<and> seekedAfterSeek (dispatch e st) es)"

text \<open>What holds of the closure after every event sequence of a real element, for a video
  of \<open>w\<close> by \<open>h\<close> pixels that lasts \<open>dur\<close> seconds.\<close>

definition frameInvariant :: "nat \<Rightarrow> nat \<Rightarrow> rat \<Rightarrow> ExtractState \<Rightarrow> bool" where
  "frameInvariant w h dur st \<longleftrightarrow>
     videoWidth (element st) = w \<and> videoHeight (element st) = h
     \<and> duration (element st) = dur \<and> 0 \<le> dur \<and> currentTime (element st) \<le> dur
     \<and> (seeking (element st) \<longrightarrow> min (1 / 10) dur \<le> currentTime (element st))
     \<and> (\<forall>t a b. DrawImage t a b \<in> set (domEffects st) \<longrightarrow>
            min (1 / 10) dur \<le> t \<and> t \<le> dur \<and> a = w \<and> b = h)
     \<and> (\<forall>f. settled st = Some (Resolved f) \<longrightarrow>
            frameWidth f = w \<and> frameHeight f = h \<and> frameMimeType f = ''image/jpeg''
            \<and> (\<exists>t. DrawImage t w h \<in> set (domEffects st)))"

text \<open>The number of completion handler bodies that ran: each one ends in exactly one call
  of \<open>resolve\<close> or \<open>reject\<close>.\<close>

definition completionCalls :: "ExtractState \<Rightarrow> nat" where
  "completionCalls st =
    length (filter (\<lambda>e. case e of ResolveCall _ \<Rightarrow> True | RejectCall _ \<Rightarrow> True | _ \<Rightarrow> False)
                   (domEffects st))"

section \<open>The application state and its handlers\<close>

datatype AppMode = ImageMode | VideoMode

datatype ApiKeyStatus = Checking | Selected | NotSelected

record ImageState =
  assetFile :: File
  url :: string

record AppState =
  mode :: AppMode
  isLoading :: bool
  error :: "string option"
  isDragging :: bool
  originalImage :: "ImageState option"
  processedImageUrl :: "string option"
  originalVideo :: "ImageState option"
  processedVideoUrl :: "string option"
  videoLoadingMessage :: string
  apiKeyStatus :: ApiKeyStatus

text \<open>The user-facing messages, as the bytes of their UTF-8 encoding.\<close>

definition utf8 :: "nat list \<Rightarrow> string" where
  "utf8 bs = map char_of bs"

definition msgNoImageReturned :: string where
  "msgNoImageReturned =
    utf8
      [0xD9, 0x84, 0xD9, 0x85, 0x20, 0xD9, 0x8A, 0xD8, 0xAA, 0xD9, 0x85, 0x20, 0xD8, 0xA5,
       0xD8, 0xB1, 0xD8, 0xAC, 0xD8, 0xA7, 0xD8, 0xB9, 0x20, 0xD8, 0xA3, 0xD9, 0x8A, 0x20,
       0xD8, 0xB5, 0xD9, 0x88, 0xD8, 0xB1, 0xD8, 0xA9, 0x20, 0xD9, 0x85, 0xD9, 0x86, 0x20,
       0xD8, 0xA7, 0xD9, 0x84, 0xD9, 0x88, 0xD8, 0xA7, 0xD8, 0xAC, 0xD9, 0x87, 0xD8, 0xA9,
       0x20, 0xD8, 0xA7, 0xD9, 0x84, 0xD8, 0xA8, 0xD8, 0xB1, 0xD9, 0x85, 0xD8, 0xAC, 0xD9,
       0x8A, 0xD8, 0xA9, 0x2E]"

definition msgImageFailed :: string where
  "msgImageFailed =
    utf8
      [0xD8, 0xAD, 0xD8, 0xAF, 0xD8, 0xAB, 0x20, 0xD8, 0xAE, 0xD8, 0xB7, 0xD8, 0xA3, 0x20,
       0xD8, 0xA3, 0xD8, 0xAB, 0xD9, 0x86, 0xD8, 0xA7, 0xD8, 0xA1, 0x20, 0xD9, 0x85, 0xD8,
       0xB9, 0xD8, 0xA7, 0xD9, 0x84, 0xD8, 0xAC, 0xD8, 0xA9, 0x20, 0xD8, 0xA7, 0xD9, 0x84,
       0xD8, 0xB5, 0xD9, 0x88, 0xD8, 0xB1, 0xD8, 0xA9, 0x2E, 0x20, 0xD8, 0xA7, 0xD9, 0x84,
       0xD8, 0xB1, 0xD8, 0xAC, 0xD8, 0xA7, 0xD8, 0xA1, 0x20, 0xD8, 0xA7, 0xD9, 0x84, 0xD9,
       0x85, 0xD8, 0xAD, 0xD8, 0xA7, 0xD9, 0x88, 0xD9, 0x84, 0xD8, 0xA9, 0x20, 0xD9, 0x85,
       0xD8, 0xB1, 0xD8, 0xA9, 0x20, 0xD8, 0xA3, 0xD8, 0xAE, 0xD8, 0xB1, 0xD9, 0x89, 0x2E]"

definition msgExtracting :: string where
  "msgExtracting =
    utf8
      [0xD8, 0xA7, 0xD8, 0xB3, 0xD8, 0xAA, 0xD8, 0xAE, 0xD8, 0xB1, 0xD8, 0xA7, 0xD8, 0xAC,
       0x20, 0xD8, 0xA7, 0xD9, 0x84, 0xD8, 0xA5, 0xD8, 0xB7, 0xD8, 0xA7, 0xD8, 0xB1, 0x20,
       0xD8, 0xA7, 0xD9, 0x84, 0xD8, 0xA3, 0xD9, 0x88, 0xD9, 0x84, 0x2E, 0x2E, 0x2E]"

definition msgRemoving :: string where
  "msgRemoving =
    utf8
      [0xD8, 0xA5, 0xD8, 0xB2, 0xD8, 0xA7, 0xD9, 0x84, 0xD8, 0xA9, 0x20, 0xD8, 0xA7, 0xD9,
       0x84, 0xD8, 0xB9, 0xD9, 0x84, 0xD8, 0xA7, 0xD9, 0x85, 0xD8, 0xA9, 0x20, 0xD8, 0xA7,
       0xD9, 0x84, 0xD9, 0x85, 0xD8, 0xA7, 0xD8, 0xA6, 0xD9, 0x8A, 0xD8, 0xA9, 0x20, 0xD9,
       0x85, 0xD9, 0x86, 0x20, 0xD8, 0xA7, 0xD9, 0x84, 0xD8, 0xA5, 0xD8, 0xB7, 0xD8, 0xA7,
       0xD8, 0xB1, 0x2E, 0x2E, 0x2E]"

definition msgGenerating :: string where
  "msgGenerating =
    utf8
      [0xD8, 0xA5, 0xD9, 0x86, 0xD8, 0xB4, 0xD8, 0xA7, 0xD8, 0xA1, 0x20, 0xD9, 0x81, 0xD9,
       0x8A, 0xD8, 0xAF, 0xD9, 0x8A, 0xD9, 0x88, 0x20, 0xD8, 0xAC, 0xD8, 0xAF, 0xD9, 0x8A,
       0xD8, 0xAF, 0x2E, 0x2E, 0x2E, 0x20, 0xD9, 0x82, 0xD8, 0xAF, 0x20, 0xD9, 0x8A, 0xD8,
       0xB3, 0xD8, 0xAA, 0xD8, 0xBA, 0xD8, 0xB1, 0xD9, 0x82, 0x20, 0xD9, 0x87, 0xD8, 0xB0,
       0xD8, 0xA7, 0x20, 0xD8, 0xB9, 0xD8, 0xAF, 0xD8, 0xA9, 0x20, 0xD8, 0xAF, 0xD9, 0x82,
       0xD8, 0xA7, 0xD8, 0xA6, 0xD9, 0x82, 0x2E]"

definition msgFrameNotCleaned :: string where
  "msgFrameNotCleaned =
    utf8
      [0xD9, 0x84, 0xD8, 0xA7, 0x20, 0xD9, 0x8A, 0xD9, 0x85, 0xD9, 0x83, 0xD9, 0x86, 0x20,
       0xD8, 0xA5, 0xD8, 0xB2, 0xD8, 0xA7, 0xD9, 0x84, 0xD8, 0xA9, 0x20, 0xD8, 0xA7, 0xD9,
       0x84, 0xD8, 0xB9, 0xD9, 0x84, 0xD8, 0xA7, 0xD9, 0x85, 0xD8, 0xA9, 0x20, 0xD8, 0xA7,
       0xD9, 0x84, 0xD9, 0x85, 0xD8, 0xA7, 0xD8, 0xA6, 0xD9, 0x8A, 0xD8, 0xA9, 0x20, 0xD9,
       0x85, 0xD9, 0x86, 0x20, 0xD8, 0xA7, 0xD9, 0x84, 0xD8, 0xA5, 0xD8, 0xB7, 0xD8, 0xA7,
       0xD8, 0xB1, 0x20, 0xD8, 0xA7, 0xD9, 0x84, 0xD8, 0xA3, 0xD9, 0x88, 0xD9, 0x84, 0x2E]"

definition msgKeyInvalid :: string where
  "msgKeyInvalid =
    utf8
      [0xD9, 0x85, 0xD9, 0x81, 0xD8, 0xAA, 0xD8, 0xA7, 0xD8, 0xAD, 0x20, 0x41, 0x50, 0x49,
       0x20, 0xD8, 0xBA, 0xD9, 0x8A, 0xD8, 0xB1, 0x20, 0xD8, 0xB5, 0xD8, 0xA7, 0xD9, 0x84,
       0xD8, 0xAD, 0x2E, 0x20, 0xD8, 0xA7, 0xD9, 0x84, 0xD8, 0xB1, 0xD8, 0xAC, 0xD8, 0xA7,
       0xD8, 0xA1, 0x20, 0xD8, 0xAA, 0xD8, 0xAD, 0xD8, 0xAF, 0xD9, 0x8A, 0xD8, 0xAF, 0x20,
       0xD9, 0x85, 0xD9, 0x81, 0xD8, 0xAA, 0xD8, 0xA7, 0xD8, 0xAD, 0x20, 0xD8, 0xB5, 0xD8,
       0xA7, 0xD9, 0x84, 0xD8, 0xAD, 0x20, 0xD9, 0x88, 0xD8, 0xA7, 0xD9, 0x84, 0xD9, 0x85,
       0xD8, 0xAD, 0xD8, 0xA7, 0xD9, 0x88, 0xD9, 0x84, 0xD8, 0xA9, 0x20, 0xD9, 0x85, 0xD8,
       0xB1, 0xD8, 0xA9, 0x20, 0xD8, 0xA3, 0xD8, 0xAE, 0xD8, 0xB1, 0xD9, 0x89, 0x2E]"

definition msgVideoFailed :: string where
  "msgVideoFailed =
    utf8
      [0xD8, 0xAD, 0xD8, 0xAF, 0xD8, 0xAB, 0x20, 0xD8, 0xAE, 0xD8, 0xB7, 0xD8, 0xA3, 0x20,
       0xD8, 0xA3, 0xD8, 0xAB, 0xD9, 0x86, 0xD8, 0xA7, 0xD8, 0xA1, 0x20, 0xD9, 0x85, 0xD8,
       0xB9, 0xD8, 0xA7, 0xD9, 0x84, 0xD8, 0xAC, 0xD8, 0xA9, 0x20, 0xD8, 0xA7, 0xD9, 0x84,
       0xD9, 0x81, 0xD9, 0x8A, 0xD8, 0xAF, 0xD9, 0x8A, 0xD9, 0x88, 0x2E, 0x20, 0xD8, 0xA7,
       0xD9, 0x84, 0xD8, 0xB1, 0xD8, 0xAC, 0xD8, 0xA7, 0xD8, 0xA1, 0x20, 0xD8, 0xA7, 0xD9,
       0x84, 0xD9, 0x85, 0xD8, 0xAD, 0xD8, 0xA7, 0xD9, 0x88, 0xD9, 0x84, 0xD8, 0xA9, 0x20,
       0xD9, 0x85, 0xD8, 0xB1, 0xD8, 0xA9, 0x20, 0xD8, 0xA3, 0xD8, 0xAE, 0xD8, 0xB1, 0xD9,
       0x89, 0x2E]"

text \<open>What the handlers do outside the state: object URLs revoked and created, console
  lines of the handler and of the image client, and the effects of the video client.\<close>

datatype app_effect =
    RevokeURL string
  | CreateURL string
  | ConsoleErr thrown
  | ImageClientLog string logarg
  | VideoClient effect

text \<open>\<open>handleReset\<close>: the effects and the next state.\<close>

definition handleReset :: "AppState \<Rightarrow> app_effect list \<times> AppState" where
  "handleReset s =
    ((case originalImage s of Some i \<Rightarrow> [RevokeURL (url i)] | None \<Rightarrow> [])
     @ (if truthy (processedImageUrl s) then [RevokeURL (the (processedImageUrl s))] else [])
     @ (case originalVideo s of Some v \<Rightarrow> [RevokeURL (url v)] | None \<Rightarrow> [])
     @ (if truthy (processedVideoUrl s) then [RevokeURL (the (processedVideoUrl s))] else []),
     s \<lparr> originalImage := None, processedImageUrl := None, originalVideo := None,
         processedVideoUrl := None, error := None, isLoading := False,
         videoLoadingMessage := [] \<rparr>)"

text \<open>The object URLs a state holds.\<close>

definition heldUrls :: "AppState \<Rightarrow> string set" where
  "heldUrls s =
    (case originalImage s of Some i \<Rightarrow> {url i} | None \<Rightarrow> {})
    \<union> (case processedImageUrl s of Some u \<Rightarrow> (if u = [] then {} else {u}) | None \<Rightarrow> {})
    \<union> (case originalVideo s of Some v \<Rightarrow> {url v} | None \<Rightarrow> {})
    \<union> (case processedVideoUrl s of Some u \<Rightarrow> (if u = [] then {} else {u}) | None \<Rightarrow> {})"

definition revokedUrls :: "app_effect list \<Rightarrow> string set" where
  "revokedUrls es = {u. RevokeURL u \<in> set es}"

text \<open>
  \<open>handleRemoveImageWatermark\<close>, from the state it starts in to the state after its
  \<open>finally\<close> block.  The file reader, the environment variable and the remote call are
  parameters.
\<close>

definition imageCatch :: "thrown \<Rightarrow> AppState \<Rightarrow> app_effect list \<times> AppState" where
  "imageCatch err s = ([ConsoleErr err], s \<lparr> error := Some msgImageFailed \<rparr>)"

definition handleRemoveImageWatermark ::
  "(File \<Rightarrow> thrown + ReaderResult) \<Rightarrow> string option \<Rightarrow>
   (GenerateContentRequest \<Rightarrow> thrown + GenerateContentResponse) \<Rightarrow>
   AppState \<Rightarrow> app_effect list \<times> AppState" where
  "handleRemoveImageWatermark readAsDataURL apiKey generateContent s =
    (case originalImage s of
       None \<Rightarrow> ([], s)
     | Some original \<Rightarrow>
        (let s1 = s \<lparr> isLoading := True, error := None, processedImageUrl := None \<rparr>;
             (es, s2) =
               (case fileToBase64 readAsDataURL (assetFile original) of
                  Inl err \<Rightarrow> imageCatch err s1
                | Inr encoded \<Rightarrow>
                   (let (lg, r) = removeWatermarkFromImage apiKey generateContent
                                     \<lparr> data = data encoded, mimeType = mimeType encoded \<rparr>;
                        es1 = map (\<lambda>(l, a). ImageClientLog l a) lg
                    in case r of
                         Inl err \<Rightarrow> (let (es2, s') = imageCatch err s1 in (es1 @ es2, s'))
                       | Inr resultBase64 \<Rightarrow>
                          if truthy resultBase64
                          then (es1, s1 \<lparr> processedImageUrl :=
                                  Some (''data:'' @ mimeType encoded @ '';base64,''
                                        @ the resultBase64) \<rparr>)
                          else (let (es2, s') = imageCatch (Error msgNoImageReturned) s1
                                in (es1 @ es2, s'))))
         in (es, s2 \<lparr> isLoading := False \<rparr>)))"

text \<open>
  \<open>handleRemoveVideoWatermark\<close>.  \<open>extract\<close> is the settled promise of \<open>extractFirstFrame\<close>
  for the file and \<open>createObjectURL\<close> names the blob it is given.  The result is \<open>None\<close>
  when the video client is still polling after \<open>fuel\<close> rounds.  The video client returns a
  \<open>Blob\<close> object whenever it returns, and an object is truthy, so the branch of the handler for
  a falsy result is never taken and has no counterpart here.
\<close>

definition videoCatch :: "thrown \<Rightarrow> AppState \<Rightarrow> app_effect list \<times> AppState" where
  "videoCatch err s =
    ([ConsoleErr err],
     if message err = Some ''API_KEY_INVALID''
     then s \<lparr> error := Some msgKeyInvalid, apiKeyStatus := NotSelected \<rparr>
     else s \<lparr> error := Some msgVideoFailed \<rparr>)"

definition handleRemoveVideoWatermark ::
  "nat \<Rightarrow> (File \<Rightarrow> outcome) \<Rightarrow> string option \<Rightarrow>
   (GenerateContentRequest \<Rightarrow> thrown + GenerateContentResponse) \<Rightarrow> VideoService \<Rightarrow>
   (string \<Rightarrow> string) \<Rightarrow> AppState \<Rightarrow> (app_effect list \<times> AppState) option" where
  "handleRemoveVideoWatermark fuel extract apiKey generateContent svc createObjectURL s =
    (case originalVideo s of
       None \<Rightarrow> Some ([], s)
     | Some original \<Rightarrow>
        (let s1 = s \<lparr> isLoading := True, error := None \<rparr>;
             es0 = (if truthy (processedVideoUrl s1)
                    then [RevokeURL (the (processedVideoUrl s1))] else []);
             s2 = s1 \<lparr> processedVideoUrl := None \<rparr>;
             s3 = s2 \<lparr> videoLoadingMessage := msgExtracting \<rparr>;
             final = (\<lambda>(es, s'). Some (es0 @ es, s' \<lparr> isLoading := False, videoLoadingMessage := [] \<rparr>))
         in case extract (assetFile original) of
              Rejected err \<Rightarrow> final (videoCatch err s3)
            | Resolved frame \<Rightarrow>
               (let s4 = s3 \<lparr> videoLoadingMessage := msgRemoving \<rparr>;
                    (lg, r) = removeWatermarkFromImage apiKey generateContent
                                \<lparr> data = frameData frame, mimeType = frameMimeType frame \<rparr>;
                    es1 = map (\<lambda>(l, a). ImageClientLog l a) lg
                in case r of
                     Inl err \<Rightarrow> (let (es2, s') = videoCatch err s4 in final (es1 @ es2, s'))
                   | Inr cleanFrameBase64 \<Rightarrow>
                      if \<not> truthy cleanFrameBase64
                      then (let (es2, s') = videoCatch (Error msgFrameNotCleaned) s4
                            in final (es1 @ es2, s'))
                      else
                        (let s5 = s4 \<lparr> videoLoadingMessage := msgGenerating \<rparr>
                         in case generateVideoFromFrame fuel apiKey svc
                                   \<lparr> data = cleanFrameBase64, mimeType = frameMimeType frame \<rparr>
                                   (int (frameWidth frame)) (int (frameHeight frame)) of
                              (tr, None) \<Rightarrow> None
                            | (tr, Some (Inl err)) \<Rightarrow>
                                (let (es2, s') = videoCatch err s5
                                 in final (es1 @ map VideoClient tr @ es2, s'))
                            | (tr, Some (Inr videoBlob)) \<Rightarrow>
                                final (es1 @ map VideoClient tr @ [CreateURL videoBlob],
                                       s5 \<lparr> processedVideoUrl := Some (createObjectURL videoBlob) \<rparr>)))))"

text \<open>A response with the mime type of every inline blob replaced, to compare what the image
  client returns for responses that differ in nothing else.\<close>

definition retagPart :: "(string \<Rightarrow> string) \<Rightarrow> Part \<Rightarrow> Part" where
  "retagPart f p =
    p \<lparr> inlineData := map_option (\<lambda>b. b \<lparr> blobMimeType := f (blobMimeType b) \<rparr>) (inlineData p) \<rparr>"

definition retagResponse :: "(string \<Rightarrow> string) \<Rightarrow> GenerateContentResponse \<Rightarrow> GenerateContentResponse" where
  "retagResponse f r =
    r \<lparr> candidates :=
          map_option
            (map (\<lambda>c. c \<lparr> content :=
                           map_option (\<lambda>ct. ct \<lparr> parts := map_option (map (retagPart f)) (parts ct) \<rparr>)
                                      (content c) \<rparr>))
            (candidates r) \<rparr>"


section \<open>Concrete inputs\<close>

text \<open>A remote call that answers with a fixed value, and one that throws a fixed value.\<close>

definition answering :: "'b \<Rightarrow> 'a \<Rightarrow> thrown + 'b" where
  "answering r req = Inr r"


definition textPart :: Part where
  "textPart = \<lparr> inlineData = None, partText = Some ''done'' \<rparr>"

definition imagePart :: "string \<Rightarrow> string \<Rightarrow> Part" where
  "imagePart d m = \<lparr> inlineData = Some \<lparr> blobData = d, blobMimeType = m \<rparr>, partText = None \<rparr>"

text \<open>A response with one candidate for each list of parts.\<close>

definition responseOf :: "Part list list \<Rightarrow> GenerateContentResponse" where
  "responseOf pss =
    \<lparr> candidates = Some (map (\<lambda>ps. \<lparr> content = Some \<lparr> parts = Some ps \<rparr> \<rparr>) pss) \<rparr>"

definition pngImage :: ImageData where
  "pngImage = \<lparr> data = Some ''QUJD'', mimeType = ''image/png'' \<rparr>"

definition jpegFrame :: ImageData where
  "jpegFrame = \<lparr> data = Some ''QUJD'', mimeType = ''image/jpeg'' \<rparr>"

text \<open>The state without assets that \<open>handleReset\<close> leads to.\<close>

definition idle :: "AppState \<Rightarrow> bool" where
  "idle s \<longleftrightarrow>
     originalImage s = None \<and> processedImageUrl s = None \<and> originalVideo s = None \<and>
     processedVideoUrl s = None \<and> error s = None \<and> \<not> isLoading s \<and> videoLoadingMessage s = []"

definition busyState :: AppState where
  "busyState =
    \<lparr> mode = VideoMode, isLoading = True, error = Some ''e'', isDragging = False,
      originalImage = Some \<lparr> assetFile = \<lparr> fileName = ''a.png'', fileType = ''image/png'' \<rparr>,
                             url = ''blob:1'' \<rparr>,
      processedImageUrl = Some ''data:image/png;base64,QUJD'',
      originalVideo = Some \<lparr> assetFile = \<lparr> fileName = ''v.mp4'', fileType = ''video/mp4'' \<rparr>,
                             url = ''blob:2'' \<rparr>,
      processedVideoUrl = Some ''blob:3'',
      videoLoadingMessage = ''m'', apiKeyStatus = Selected \<rparr>"

text \<open>Job handles, transport responses and services.\<close>

definition finishedOp :: GenerateVideosOperation where
  "finishedOp =
    \<lparr> op_done = True,
      response = Some \<lparr> generatedVideos =
                         Some [\<lparr> video = Some \<lparr> uri = Some ''https://v/1?alt=media'' \<rparr> \<rparr>] \<rparr> \<rparr>"

definition emptyOp :: GenerateVideosOperation where
  "emptyOp = \<lparr> op_done = True, response = None \<rparr>"

definition pendingOp :: GenerateVideosOperation where
  "pendingOp = \<lparr> op_done = False, response = None \<rparr>"

definition okResponse :: Response where
  "okResponse =
    \<lparr> ok = True, status = 200, responseText = Inr [], responseBlob = Inr ''VIDEO'' \<rparr>"

definition notFoundResponse :: Response where
  "notFoundResponse =
    \<lparr> ok = False, status = 404, responseText = Inr ''gone'', responseBlob = Inr [] \<rparr>"

text \<open>A job that must not be queried, and a job that is queued at submission, running at
  its first query and done at every later one.\<close>

definition neverQueried ::
  "nat \<Rightarrow> GenerateVideosOperation \<Rightarrow> thrown + GenerateVideosOperation" where
  "neverQueried k operation = Inl (Error ''unexpected query'')"

definition runningOp :: GenerateVideosOperation where
  "runningOp = \<lparr> op_done = False, response = Some \<lparr> generatedVideos = None \<rparr> \<rparr>"

definition stagedQuery ::
  "nat \<Rightarrow> GenerateVideosOperation \<Rightarrow> thrown + GenerateVideosOperation" where
  "stagedQuery k operation = Inr (if k = 0 then runningOp else finishedOp)"

definition stagedService :: VideoService where
  "stagedService =
    \<lparr> generateVideos = answering pendingOp, getVideosOperation = stagedQuery,
      fetch = answering okResponse \<rparr>"

definition instantService :: VideoService where
  "instantService =
    \<lparr> generateVideos = answering finishedOp, getVideosOperation = neverQueried,
      fetch = answering okResponse \<rparr>"





definition noLinkService :: VideoService where
  "noLinkService =
    \<lparr> generateVideos = answering emptyOp, getVideosOperation = neverQueried,
      fetch = answering okResponse \<rparr>"

definition goneService :: VideoService where
  "goneService =
    \<lparr> generateVideos = answering finishedOp, getVideosOperation = neverQueried,
      fetch = answering notFoundResponse \<rparr>"

text \<open>A file reader, a frame extractor and a URL factory with fixed results, files, and
  application states with one asset loaded.\<close>

definition readsAs :: "string \<Rightarrow> File \<Rightarrow> thrown + ReaderResult" where
  "readsAs result f = Inr (ResultString result)"

definition extracts :: "Frame \<Rightarrow> File \<Rightarrow> outcome" where
  "extracts frame f = Resolved frame"

definition blobUrl :: "string \<Rightarrow> string" where
  "blobUrl b = ''blob:out''"

definition pngFile :: File where
  "pngFile = \<lparr> fileName = ''a.png'', fileType = ''image/png'' \<rparr>"

definition mp4File :: File where
  "mp4File = \<lparr> fileName = ''v.mp4'', fileType = ''video/mp4'' \<rparr>"

definition emptyState :: AppState where
  "emptyState =
    \<lparr> mode = ImageMode, isLoading = False, error = None, isDragging = False,
      originalImage = None, processedImageUrl = None, originalVideo = None,
      processedVideoUrl = None, videoLoadingMessage = [], apiKeyStatus = Selected \<rparr>"

definition imageLoaded :: AppState where
  "imageLoaded = emptyState \<lparr> originalImage := Some \<lparr> assetFile = pngFile, url = ''blob:1'' \<rparr> \<rparr>"

definition videoLoaded :: AppState where
  "videoLoaded =
    emptyState \<lparr> mode := VideoMode,
                 originalVideo := Some \<lparr> assetFile = mp4File, url = ''blob:2'' \<rparr> \<rparr>"

definition firstFrame :: Frame where
  "firstFrame =
    \<lparr> frameData = Some ''QUJD'', frameMimeType = ''image/jpeg'', frameWidth = 1280,
      frameHeight = 720 \<rparr>"

definition webpAnswer :: GenerateContentResponse where
  "webpAnswer = responseOf [[imagePart ''WFla'' ''image/webp'']]"


section \<open>Properties of the image editing client\<close>

lemma scanParts_first:
  "\<forall>q\<in>set pre. inlineData q = None \<Longrightarrow> inlineData p = Some b \<Longrightarrow>
   scanParts (pre @ p # post) = Some (blobData b)"
  by (induction pre) auto

lemma scanParts_no_image: "\<forall>q\<in>set ps. inlineData q = None \<Longrightarrow> scanParts ps = None"
  by (induction ps) auto

text \<open>
  C4.  When the remote call answers, \<open>removeWatermarkFromImage\<close> returns the data of the
  first part (of the parts it scans) that carries an inline blob, whatever follows it; when
  no part carries one it returns \<open>null\<close>, which is neither a rejection nor a string, the
  empty string included.
\<close>

theorem removeWatermark_first_image_part:
  assumes "truthy apiKey" and "generateContent (editRequest imageData) = Inr resp"
  shows "(firstCandidateParts resp = pre @ p # post \<longrightarrow>
            (\<forall>q\<in>set pre. inlineData q = None) \<longrightarrow> inlineData p = Some b \<longrightarrow>
            removeWatermarkFromImage apiKey generateContent imageData
              = ([], Inr (Some (blobData b))))
       \<and> ((\<forall>q\<in>set (firstCandidateParts resp). inlineData q = None) \<longrightarrow>
            removeWatermarkFromImage apiKey generateContent imageData = ([], Inr None)
            \<and> snd (removeWatermarkFromImage apiKey generateContent imageData) \<noteq> Inl e
            \<and> snd (removeWatermarkFromImage apiKey generateContent imageData) \<noteq> Inr (Some []))"
  using assms
  by (auto simp: removeWatermarkFromImage_def scanParts_first scanParts_no_image)

theorem removeWatermark_first_image_part_witness:
  "removeWatermarkFromImage (Some ''k'')
     (answering (responseOf [[textPart, imagePart ''AAA'' ''image/webp'',
                              imagePart ''BBB'' ''image/png'']]))
     pngImage = ([], Inr (Some ''AAA''))
   \<and> removeWatermarkFromImage (Some ''k'') (answering (responseOf [[textPart]])) pngImage
       = ([], Inr None)"
proof -
  let ?r1 = "responseOf [[textPart, imagePart ''AAA'' ''image/webp'',
                          imagePart ''BBB'' ''image/png'']]"
  let ?r2 = "responseOf [[textPart]]"
  have k: "truthy (Some ''k'')" by (simp add: truthy_def)
  have a1: "answering ?r1 (editRequest pngImage) = Inr ?r1" by (simp add: answering_def)
  have a2: "answering ?r2 (editRequest pngImage) = Inr ?r2" by (simp add: answering_def)
  have p1: "firstCandidateParts ?r1
              = [textPart] @ imagePart ''AAA'' ''image/webp'' # [imagePart ''BBB'' ''image/png'']"
    by (simp add: firstCandidateParts_def responseOf_def)
  have q1: "\<forall>q\<in>set [textPart]. inlineData q = None" by (simp add: textPart_def)
  have b1: "inlineData (imagePart ''AAA'' ''image/webp'')
              = Some \<lparr> blobData = ''AAA'', blobMimeType = ''image/webp'' \<rparr>"
    by (simp add: imagePart_def)
  have p2: "\<forall>q\<in>set (firstCandidateParts ?r2). inlineData q = None"
    by (simp add: firstCandidateParts_def responseOf_def textPart_def)
  from removeWatermark_first_image_part
         [where generateContent = "answering ?r1" and imageData = pngImage
            and pre = "[textPart]" and p = "imagePart ''AAA'' ''image/webp''"
            and post = "[imagePart ''BBB'' ''image/png'']"
            and b = "\<lparr> blobData = ''AAA'', blobMimeType = ''image/webp'' \<rparr>", OF k a1]
       p1 q1 b1
  have t1: "removeWatermarkFromImage (Some ''k'') (answering ?r1) pngImage
              = ([], Inr (Some ''AAA''))"
    by simp
  from removeWatermark_first_image_part
         [where generateContent = "answering ?r2" and imageData = pngImage, OF k a2] p2
  have t2: "removeWatermarkFromImage (Some ''k'') (answering ?r2) pngImage = ([], Inr None)"
    by blast
  from t1 t2 show ?thesis by simp
qed

text \<open>
  C9.  When the remote call answers, \<open>removeWatermarkFromImage\<close> always returns a value and
  never rejects.  Only the first candidate decides the value: replacing the candidates after
  it changes nothing.  A response without candidates, with an empty list of candidates, or
  whose first candidate has no content, no parts or an empty list of parts gives \<open>null\<close>.
\<close>

theorem removeWatermark_total_first_candidate:
  assumes "truthy apiKey" and "generateContent (editRequest imageData) = Inr resp"
  shows "(\<exists>v. removeWatermarkFromImage apiKey generateContent imageData = ([], Inr v))
       \<and> (candidates resp = Some (c # cs) \<longrightarrow>
            generateContent' (editRequest imageData)
              = Inr (resp \<lparr> candidates := Some (c # cs') \<rparr>) \<longrightarrow>
            removeWatermarkFromImage apiKey generateContent' imageData
              = removeWatermarkFromImage apiKey generateContent imageData)
       \<and> (candidates resp = None \<or> candidates resp = Some [] \<or>
            (\<exists>c cs. candidates resp = Some (c # cs) \<and>
               (content c = None \<or>
                (\<exists>ct. content c = Some ct \<and> (parts ct = None \<or> parts ct = Some [])))) \<longrightarrow>
            removeWatermarkFromImage apiKey generateContent imageData = ([], Inr None))"
  using assms
  by (auto simp: removeWatermarkFromImage_def firstCandidateParts_def)

theorem removeWatermark_total_first_candidate_witness:
  "removeWatermarkFromImage (Some ''k'')
      (answering (responseOf [[textPart], [imagePart ''BBB'' ''image/png'']])) pngImage
     = removeWatermarkFromImage (Some ''k'') (answering (responseOf [[textPart]])) pngImage
   \<and> removeWatermarkFromImage (Some ''k'') (answering \<lparr> candidates = None \<rparr>) pngImage
     = ([], Inr None)"
proof -
  let ?r = "responseOf [[textPart]]"
  let ?r' = "responseOf [[textPart], [imagePart ''BBB'' ''image/png'']]"
  let ?c = "\<lparr> content = Some \<lparr> parts = Some [textPart] \<rparr> \<rparr>"
  let ?c' = "\<lparr> content = Some \<lparr> parts = Some [imagePart ''BBB'' ''image/png''] \<rparr> \<rparr>"
  let ?n = "\<lparr> candidates = None \<rparr>"
  have k: "truthy (Some ''k'')" by (simp add: truthy_def)
  have a: "answering ?r (editRequest pngImage) = Inr ?r" by (simp add: answering_def)
  have n: "answering ?n (editRequest pngImage) = Inr ?n" by (simp add: answering_def)
  have c: "candidates ?r = Some (?c # [])" by (simp add: responseOf_def)
  have a': "answering ?r' (editRequest pngImage)
              = Inr (?r \<lparr> candidates := Some (?c # [?c']) \<rparr>)"
    by (simp add: answering_def responseOf_def)
  from removeWatermark_total_first_candidate
         [where generateContent = "answering ?r" and imageData = pngImage
            and generateContent' = "answering ?r'" and c = ?c and cs = "[]" and cs' = "[?c']",
          OF k a] c a'
  have t1: "removeWatermarkFromImage (Some ''k'') (answering ?r') pngImage
             = removeWatermarkFromImage (Some ''k'') (answering ?r) pngImage"
    by blast
  from removeWatermark_total_first_candidate
         [where generateContent = "answering ?n" and imageData = pngImage, OF k n]
  have t2: "removeWatermarkFromImage (Some ''k'') (answering ?n) pngImage = ([], Inr None)"
    by simp
  from t1 t2 show ?thesis by simp
qed

section \<open>Properties of the video generation client\<close>

lemma aspect_positive_height:
  "0 < h \<Longrightarrow> aspectRatioOf w h = (if h < w then ''16:9'' else ''9:16'')"
  by (simp add: aspectRatioOf_def js_div_def pos_less_divide_eq)

text \<open>
  C2.  The request that \<open>generateVideoFromFrame\<close> submits carries the preset \<open>16:9\<close> when
  \<open>width / height > 1\<close> and the preset \<open>9:16\<close> when \<open>width / height \<le> 1\<close>; for a positive
  height that is \<open>16:9\<close> exactly when the width exceeds the height.  1920 by 1080 is wide,
  1080 by 1920 is tall, and equal width and height are tall.
\<close>

theorem aspect_ratio_classification:
  "(js_gt (js_div w h) 1 \<longrightarrow> aspectRatio (videoRequest imageData w h) = ''16:9'')
   \<and> (js_le (js_div w h) 1 \<longrightarrow> aspectRatio (videoRequest imageData w h) = ''9:16'')
   \<and> (0 < h \<longrightarrow> (aspectRatio (videoRequest imageData w h) = ''16:9'') = (h < w))
   \<and> aspectRatio (videoRequest imageData 1920 1080) = ''16:9''
   \<and> aspectRatio (videoRequest imageData 1080 1920) = ''9:16''
   \<and> aspectRatio (videoRequest imageData w w) = ''9:16''"
proof -
  have le_not_gt: "js_le r 1 \<Longrightarrow> \<not> js_gt r 1" for r by (cases r) auto
  have a: "js_gt (js_div w h) 1 \<longrightarrow> aspectRatio (videoRequest imageData w h) = ''16:9''"
    by (simp add: videoRequest_def aspectRatioOf_def)
  have b: "js_le (js_div w h) 1 \<longrightarrow> aspectRatio (videoRequest imageData w h) = ''9:16''"
    using le_not_gt by (auto simp: videoRequest_def aspectRatioOf_def Let_def)
  have c: "0 < h \<longrightarrow> (aspectRatio (videoRequest imageData w h) = ''16:9'') = (h < w)"
    by (simp add: videoRequest_def aspect_positive_height)
  have d: "aspectRatio (videoRequest imageData 1920 1080) = ''16:9''"
    by (simp add: videoRequest_def aspect_positive_height)
  have e: "aspectRatio (videoRequest imageData 1080 1920) = ''9:16''"
    by (simp add: videoRequest_def aspect_positive_height)
  have f: "aspectRatio (videoRequest imageData w w) = ''9:16''"
    by (simp add: videoRequest_def aspectRatioOf_def js_div_def)
  from a b c d e f show ?thesis by blast
qed

theorem aspect_ratio_classification_witness:
  "js_gt (js_div 1280 720) 1 \<and> aspectRatio (videoRequest jpegFrame 1280 720) = ''16:9''
   \<and> js_le (js_div 720 1280) 1 \<and> aspectRatio (videoRequest jpegFrame 720 1280) = ''9:16''
   \<and> (0::int) < 720 \<and> (720::int) < 1280"
proof -
  have g1: "js_gt (js_div 1280 720) 1" by (simp add: js_div_def)
  have g2: "js_le (js_div 720 1280) 1" by (simp add: js_div_def)
  from aspect_ratio_classification [of 1280 720 jpegFrame] g1
  have t1: "aspectRatio (videoRequest jpegFrame 1280 720) = ''16:9''" by blast
  from aspect_ratio_classification [of 720 1280 jpegFrame] g2
  have t2: "aspectRatio (videoRequest jpegFrame 720 1280) = ''9:16''" by blast
  from g1 g2 t1 t2 show ?thesis by simp
qed

declare pollLoop.simps [simp del]

lemma pollLoop_done: "op_done operation \<Longrightarrow> pollLoop fuel g k operation tr = (tr, Some (Inr operation))"
  by (simp add: pollLoop.simps)

lemma pollLoop_out_of_fuel: "\<not> op_done operation \<Longrightarrow> pollLoop 0 g k operation tr = (tr, None)"
  by (simp add: pollLoop.simps)

lemma pollLoop_throw:
  "\<not> op_done operation \<Longrightarrow> g k operation = Inl e \<Longrightarrow>
   pollLoop (Suc fuel) g k operation tr = (tr @ pollRound operation, Some (Inl e))"
  by (simp add: pollLoop.simps pollRound_def)

lemma pollLoop_round:
  "\<not> op_done operation \<Longrightarrow> g k operation = Inr operation' \<Longrightarrow>
   pollLoop (Suc fuel) g k operation tr = pollLoop fuel g (Suc k) operation' (tr @ pollRound operation)"
  by (simp add: pollLoop.simps pollRound_def)

lemma pollLoop_shape:
  "pollLoop fuel g k operation tr = (tr', r) \<Longrightarrow>
   \<exists>ops. tr' = tr @ concat (map pollRound ops)
     \<and> (\<forall>q\<in>set ops. \<not> op_done q)
     \<and> (op_done operation \<longrightarrow> ops = [])
     \<and> (\<not> op_done operation \<and> 0 < fuel \<longrightarrow> ops \<noteq> [] \<and> hd ops = operation)
     \<and> (\<forall>q. r = Some (Inr q) \<longrightarrow> op_done q)"
proof (induction fuel arbitrary: k operation tr)
  case 0
  then show ?case
    by (cases "op_done operation") (auto simp: pollLoop_done pollLoop_out_of_fuel intro: exI [of _ "[]"])
next
  case (Suc fuel)
  show ?case
  proof (cases "op_done operation")
    case True
    with Suc.prems show ?thesis by (auto simp: pollLoop_done intro: exI [of _ "[]"])
  next
    case False
    show ?thesis
    proof (cases "g k operation")
      case (Inl e)
      with False Suc.prems have "tr' = tr @ concat (map pollRound [operation])" and "r = Some (Inl e)"
        by (auto simp: pollLoop_throw)
      with False show ?thesis by (intro exI [of _ "[operation]"]) auto
    next
      case (Inr operation')
      with False Suc.prems
      have "pollLoop fuel g (Suc k) operation' (tr @ pollRound operation) = (tr', r)"
        by (simp add: pollLoop_round)
      from Suc.IH [OF this] obtain ops where
        ops: "tr' = (tr @ pollRound operation) @ concat (map pollRound ops)"
             "\<forall>q\<in>set ops. \<not> op_done q" "\<forall>q. r = Some (Inr q) \<longrightarrow> op_done q"
        by blast
      with False show ?thesis by (intro exI [of _ "operation # ops"]) auto
    qed
  qed
qed

lemma answerChain_cons:
  "g k p = Inr q \<Longrightarrow> (ops \<noteq> [] \<longrightarrow> hd ops = q) \<Longrightarrow>
   answerChain g k (p # ops) = answerChain g (Suc k) ops"
  by (cases ops) auto

lemma lastAnswer_cons:
  "g k p = Inr q \<Longrightarrow> lastAnswer g k p (p # ops) = lastAnswer g (Suc k) q ops"
  by (cases ops) (auto simp: lastAnswer_def)

lemma pollLoop_answers:
  "pollLoop fuel g k operation tr = (tr', r) \<Longrightarrow>
   \<exists>ops. tr' = tr @ concat (map pollRound ops)
     \<and> (\<forall>q\<in>set ops. \<not> op_done q)
     \<and> (ops \<noteq> [] \<longrightarrow> hd ops = operation)
     \<and> answerChain g k ops
     \<and> (case r of
           None \<Rightarrow> length ops = fuel \<and> \<not> pollEnds (lastAnswer g k operation ops)
         | Some a \<Rightarrow> a = lastAnswer g k operation ops \<and> pollEnds a)"
proof (induction fuel arbitrary: k operation tr)
  case 0
  show ?case
  proof (cases "op_done operation")
    case True
    with 0 have "tr' = tr" "r = Some (Inr operation)" by (simp_all add: pollLoop_done)
    with True show ?thesis
      by (intro exI [of _ "[]"]) (simp add: lastAnswer_def pollEnds_def)
  next
    case False
    with 0 have "tr' = tr" "r = None" by (simp_all add: pollLoop_out_of_fuel)
    with False show ?thesis
      by (intro exI [of _ "[]"]) (simp add: lastAnswer_def pollEnds_def)
  qed
next
  case (Suc fuel)
  show ?case
  proof (cases "op_done operation")
    case True
    with Suc.prems have "tr' = tr" "r = Some (Inr operation)" by (simp_all add: pollLoop_done)
    with True show ?thesis
      by (intro exI [of _ "[]"]) (simp add: lastAnswer_def pollEnds_def)
  next
    case False
    show ?thesis
    proof (cases "g k operation")
      case (Inl e)
      with False Suc.prems have "tr' = tr @ concat (map pollRound [operation])" "r = Some (Inl e)"
        by (simp_all add: pollLoop_throw)
      with False Inl show ?thesis
        by (intro exI [of _ "[operation]"]) (simp add: lastAnswer_def pollEnds_def)
    next
      case (Inr operation')
      with False Suc.prems
      have "pollLoop fuel g (Suc k) operation' (tr @ pollRound operation) = (tr', r)"
        by (simp add: pollLoop_round)
      from Suc.IH [OF this] obtain ops where
        tr: "tr' = (tr @ pollRound operation) @ concat (map pollRound ops)"
        and nd: "\<forall>q\<in>set ops. \<not> op_done q"
        and hd: "ops \<noteq> [] \<longrightarrow> hd ops = operation'"
        and ch: "answerChain g (Suc k) ops"
        and res: "case r of
             None \<Rightarrow> length ops = fuel \<and> \<not> pollEnds (lastAnswer g (Suc k) operation' ops)
           | Some a \<Rightarrow> a = lastAnswer g (Suc k) operation' ops \<and> pollEnds a"
        by (elim exE conjE)
      have 1: "tr' = tr @ concat (map pollRound (operation # ops))" using tr by simp
      have 2: "\<forall>q\<in>set (operation # ops). \<not> op_done q" using nd False by simp
      have 3: "answerChain g k (operation # ops)"
        using ch answerChain_cons [of g k operation operation' ops] Inr hd by simp
      have 4: "case r of
             None \<Rightarrow> length (operation # ops) = Suc fuel
                       \<and> \<not> pollEnds (lastAnswer g k operation (operation # ops))
           | Some a \<Rightarrow> a = lastAnswer g k operation (operation # ops) \<and> pollEnds a"
        using res lastAnswer_cons [of g k operation operation' ops] Inr by (simp split: option.splits)
      show ?thesis
        by (rule exI [of _ "operation # ops"]) (intro conjI 1 2 3 4, simp)
    qed
  qed
qed


lemma answered_handles_unique:
  assumes "\<forall>q\<in>set a. \<not> op_done q" "a \<noteq> [] \<longrightarrow> hd a = op0" "answerChain g k a"
    "pollEnds (lastAnswer g k op0 a)"
    "\<forall>q\<in>set b. \<not> op_done q" "b \<noteq> [] \<longrightarrow> hd b = op0" "answerChain g k b"
    "pollEnds (lastAnswer g k op0 b)"
  shows "a = b"
  using assms
proof (induction a arbitrary: b k op0)
  case Nil
  then have "op_done op0" by (simp add: lastAnswer_def pollEnds_def)
  with Nil.prems(5,6) show ?case by (cases b) auto
next
  case (Cons p a')
  then have p: "p = op0" "\<not> op_done op0" by auto
  have "b \<noteq> []"
  proof
    assume "b = []"
    with Cons.prems(8) p show False by (simp add: lastAnswer_def pollEnds_def)
  qed
  with Cons.prems(6) obtain b' where b: "b = op0 # b'" by (cases b) auto
  show ?case
  proof (cases a')
    case Nil
    with Cons.prems(4) p have e: "pollEnds (g k op0)" by (simp add: lastAnswer_def)
    have "b' = []"
    proof (cases b')
      case (Cons q qs)
      with b Cons.prems(5,7) have "g k op0 = Inr q" "\<not> op_done q" by auto
      with e show ?thesis by (simp add: pollEnds_def)
    qed simp
    with b p Nil show ?thesis by simp
  next
    case a': (Cons q qs)
    with Cons.prems(3) p have g: "g k op0 = Inr q" by simp
    from a' Cons.prems(1) have nq: "\<not> op_done q" by simp
    have "b' \<noteq> []"
    proof
      assume "b' = []"
      with b Cons.prems(8) g nq show False by (simp add: lastAnswer_def pollEnds_def)
    qed
    then obtain q' qs' where b': "b' = q' # qs'" by (cases b') auto
    with b Cons.prems(7) g have hb: "hd b' = q" by simp
    have "a' = b'"
    proof (rule Cons.IH [of q "Suc k"])
      show "\<forall>x\<in>set a'. \<not> op_done x" using Cons.prems(1) by simp
      show "a' \<noteq> [] \<longrightarrow> hd a' = q" using a' by simp
      show "answerChain g (Suc k) a'" using Cons.prems(3) a' p by simp
      show "pollEnds (lastAnswer g (Suc k) q a')"
        using Cons.prems(4) p lastAnswer_cons [of g k op0 q a'] g by simp
      show "\<forall>x\<in>set b'. \<not> op_done x" using Cons.prems(5) b by simp
      show "b' \<noteq> [] \<longrightarrow> hd b' = q" using hb by simp
      show "answerChain g (Suc k) b'" using Cons.prems(7) b b' by simp
      show "pollEnds (lastAnswer g (Suc k) q b')"
        using Cons.prems(8) b lastAnswer_cons [of g k op0 q b'] g by simp
    qed
    with b p show ?thesis by simp
  qed
qed

lemma pollLoop_stable:
  "snd (pollLoop fuel g k operation tr) \<noteq> None \<Longrightarrow>
   pollLoop (fuel + m) g k operation tr = pollLoop fuel g k operation tr"
proof (induction fuel arbitrary: k operation tr)
  case 0
  then show ?case by (cases "op_done operation") (auto simp: pollLoop_done pollLoop_out_of_fuel)
next
  case (Suc fuel)
  show ?case
  proof (cases "op_done operation")
    case True
    then show ?thesis by (simp add: pollLoop_done)
  next
    case False
    show ?thesis
    proof (cases "g k operation")
      case (Inl e)
      with False show ?thesis by (simp add: pollLoop_throw)
    next
      case (Inr operation')
      with False Suc.prems Suc.IH [of "Suc k" operation' "tr @ pollRound operation"]
      show ?thesis by (simp add: pollLoop_round)
    qed
  qed
qed

lemma includes_head: "includesStr s (c # n) \<Longrightarrow> c \<in> set s"
  by (induction s) (auto dest: in_set_takeD)

lemma digit_not_R: "d < 10 \<Longrightarrow> char_of (48 + d :: nat) \<noteq> CHR ''R''"
proof
  assume d: "d < 10" and "char_of (48 + d) = CHR ''R''"
  then have "of_char (char_of (48 + d) :: char) = (of_char CHR ''R'' :: nat)" by simp
  with d show False by simp
qed

lemma digitsOf_no_R: "CHR ''R'' \<notin> set (digitsOf n)"
proof (induction n rule: digitsOf.induct)
  case (1 n)
  show ?case
  proof (cases "n < 10")
    case True
    then show ?thesis using digit_not_R [of n] by (subst digitsOf.simps) auto
  next
    case False
    with 1 digit_not_R [of "n mod 10"] show ?thesis by (subst digitsOf.simps) auto
  qed
qed

lemma not_found_missing_link: "\<not> entityNotFound missingLinkError"
  by (auto simp: entityNotFound_def missingLinkError_def Error_def dest: includes_head)

lemma not_found_download_error: "\<not> entityNotFound (downloadError n)"
  using digitsOf_no_R [of n]
  by (auto simp: entityNotFound_def downloadError_def Error_def simp del: digitsOf.simps
           dest!: includes_head)

lemma download_no_poll: "e \<in> set (fst (download key f operation)) \<Longrightarrow> \<not> isPollEffect e"
  by (auto simp: download_def Let_def split: sum.splits if_splits)

lemma tryBody_unfold:
  assumes "generateVideos svc (videoRequest imageData w h) = Inr op0"
    and "pollLoop fuel (getVideosOperation svc) 0 op0 [GenerateVideosCall (videoRequest imageData w h)]
           = (ptr, pr)"
  shows "tryBody fuel key svc imageData w h =
    (case pr of
       None \<Rightarrow> (ptr, None)
     | Some (Inl err) \<Rightarrow> (ptr, Some (Inl err))
     | Some (Inr operation) \<Rightarrow>
         (ptr @ fst (download key (fetch svc) operation),
          Some (snd (download key (fetch svc) operation))))"
proof (cases pr)
  case None
  with assms show ?thesis by (simp add: tryBody_def)
next
  case (Some x)
  with assms show ?thesis by (cases x) (simp_all add: tryBody_def split_beta)
qed

lemma generate_unfold:
  assumes "truthy apiKey"
    and "generateVideos svc (videoRequest imageData w h) = Inr op0"
    and "pollLoop fuel (getVideosOperation svc) 0 op0 [GenerateVideosCall (videoRequest imageData w h)]
           = (ptr, pr)"
  shows "generateVideoFromFrame fuel apiKey svc imageData w h =
    (case pr of
       None \<Rightarrow> (ptr, None)
     | Some (Inl err) \<Rightarrow> (ptr @ fst (catchBlock err), Some (Inl (snd (catchBlock err))))
     | Some (Inr operation) \<Rightarrow>
        (case snd (download (the apiKey) (fetch svc) operation) of
           Inr videoBlob \<Rightarrow>
             (ptr @ fst (download (the apiKey) (fetch svc) operation), Some (Inr videoBlob))
         | Inl err \<Rightarrow>
             (ptr @ fst (download (the apiKey) (fetch svc) operation) @ fst (catchBlock err),
              Some (Inl (snd (catchBlock err))))))"
proof (cases pr)
  case None
  with assms(1) tryBody_unfold [OF assms(2,3), of "the apiKey"] show ?thesis
    by (simp add: generateVideoFromFrame_def)
next
  case (Some x)
  show ?thesis
  proof (cases x)
    case (Inl err)
    with Some assms(1) tryBody_unfold [OF assms(2,3), of "the apiKey"] show ?thesis
      by (simp add: generateVideoFromFrame_def split_beta)
  next
    case (Inr operation)
    with Some assms(1) tryBody_unfold [OF assms(2,3), of "the apiKey"] show ?thesis
      by (cases "snd (download (the apiKey) (fetch svc) operation)")
         (simp_all add: generateVideoFromFrame_def split_beta)
  qed
qed


lemma catchBlock_no_poll: "e \<in> set (fst (catchBlock err)) \<Longrightarrow> \<not> isPollEffect e"
  by (auto simp: catchBlock_def)

text \<open>
  C1 (amended).  After the submission the loop issues status queries only, each right after
  a suspension of 10000 ms.  The first query is made with the submitted handle and every
  later one with the handle the service gave as the answer to the query before it, and every
  handle queried is not done: so there is no query at all when the submitted job is already
  done, and at least one otherwise.  When the call has returned, the answer to the last
  query was a thrown value or a status that is done, nothing after the loop suspends or
  queries, and no further round changes the effects.  When the loop is still running, it
  has made one query per round and the last answer was not done.  (By
  \<open>answered_handles_unique\<close> these conditions fix the handles queried.)
\<close>

theorem polling_queries:
  assumes key: "truthy apiKey"
    and sub: "generateVideos svc (videoRequest imageData w h) = Inr op0"
    and run: "generateVideoFromFrame fuel apiKey svc imageData w h = (tr, r)"
  shows "\<exists>ops rest.
           tr = GenerateVideosCall (videoRequest imageData w h) # concat (map pollRound ops) @ rest
         \<and> (\<forall>q\<in>set ops. \<not> op_done q)
         \<and> (ops \<noteq> [] \<longrightarrow> hd ops = op0)
         \<and> answerChain (getVideosOperation svc) 0 ops
         \<and> (op_done op0 \<longrightarrow> ops = [])
         \<and> (\<not> op_done op0 \<and> 0 < fuel \<longrightarrow> ops \<noteq> [])
         \<and> (r \<noteq> None \<longrightarrow> pollEnds (lastAnswer (getVideosOperation svc) 0 op0 ops))
         \<and> (r = None \<longrightarrow>
              length ops = fuel \<and> \<not> pollEnds (lastAnswer (getVideosOperation svc) 0 op0 ops))
         \<and> (\<forall>e\<in>set rest. \<not> isPollEffect e)
         \<and> (r \<noteq> None \<longrightarrow>
              (\<forall>m. generateVideoFromFrame (fuel + m) apiKey svc imageData w h = (tr, r)))"
proof -
  let ?req = "videoRequest imageData w h"
  let ?g = "getVideosOperation svc"
  let ?dl = "\<lambda>operation. download (the apiKey) (fetch svc) operation"
  obtain ptr pr where
    poll: "pollLoop fuel ?g 0 op0 [GenerateVideosCall ?req] = (ptr, pr)"
    by (cases "pollLoop fuel ?g 0 op0 [GenerateVideosCall ?req]")
  from pollLoop_answers [OF poll] obtain ops where
    shape: "ptr = [GenerateVideosCall ?req] @ concat (map pollRound ops)"
    and pending: "\<forall>q\<in>set ops. \<not> op_done q"
    and first: "ops \<noteq> [] \<longrightarrow> hd ops = op0"
    and chain: "answerChain ?g 0 ops"
    and ending: "case pr of
           None \<Rightarrow> length ops = fuel \<and> \<not> pollEnds (lastAnswer ?g 0 op0 ops)
         | Some a \<Rightarrow> a = lastAnswer ?g 0 op0 ops \<and> pollEnds a"
    by (elim exE conjE)
  have done0: "op_done op0 \<longrightarrow> ops = []"
  proof
    assume d: "op_done op0"
    show "ops = []"
    proof (rule ccontr)
      assume n: "ops \<noteq> []"
      with first have "hd ops = op0" by simp
      moreover from n have "hd ops \<in> set ops" by simp
      ultimately show False using pending d by auto
    qed
  qed
  have atleast: "\<not> op_done op0 \<and> 0 < fuel \<longrightarrow> ops \<noteq> []"
    using ending by (auto simp: lastAnswer_def pollEnds_def split: option.splits)
  note u = generate_unfold [OF key sub poll]
  have stable: "generateVideoFromFrame (fuel + m) apiKey svc imageData w h = (tr, r)"
    if "pr \<noteq> None" for m
  proof -
    from that poll have "snd (pollLoop fuel ?g 0 op0 [GenerateVideosCall ?req]) \<noteq> None"
      by simp
    from pollLoop_stable [OF this, of m] poll
    have "pollLoop (fuel + m) ?g 0 op0 [GenerateVideosCall ?req] = (ptr, pr)"
      by (simp only:)
    from generate_unfold [OF key sub this]
    have "generateVideoFromFrame (fuel + m) apiKey svc imageData w h
            = generateVideoFromFrame fuel apiKey svc imageData w h"
      by (simp only: u)
    with run show ?thesis by (simp only:)
  qed
  have "\<exists>rest. tr = ptr @ rest \<and> (\<forall>e\<in>set rest. \<not> isPollEffect e) \<and> (r = None) = (pr = None)"
  proof (cases pr)
    case None
    with u run have "tr = ptr @ []" and "r = None" by simp_all
    with None show ?thesis by (intro exI [of _ "[]"]) simp
  next
    case (Some x)
    show ?thesis
    proof (cases x)
      case (Inl err)
      with Some u run have "tr = ptr @ fst (catchBlock err)" and "r \<noteq> None" by auto
      with catchBlock_no_poll show ?thesis
        by (intro exI [of _ "fst (catchBlock err)"]) (simp add: Some)
    next
      case (Inr operation)
      have dn: "\<forall>e\<in>set (fst (?dl operation)). \<not> isPollEffect e"
        using download_no_poll by blast
      show ?thesis
      proof (cases "snd (?dl operation)")
        case (Inl err)
        with Some Inr u run have "tr = ptr @ (fst (?dl operation) @ fst (catchBlock err))"
          and "r \<noteq> None"
          by auto
        moreover from dn catchBlock_no_poll
        have "\<forall>e\<in>set (fst (?dl operation) @ fst (catchBlock err)). \<not> isPollEffect e"
          by (simp add: ball_Un)
        ultimately show ?thesis
          by (intro exI [of _ "fst (?dl operation) @ fst (catchBlock err)"]) (simp add: Some)
      next
        case (Inr videoBlob)
        with Some \<open>x = Inr operation\<close> u run have "tr = ptr @ fst (?dl operation)"
          and "r \<noteq> None"
          by auto
        with dn show ?thesis
          by (intro exI [of _ "fst (?dl operation)"]) (simp add: Some)
      qed
    qed
  qed
  then obtain rest where
    rest: "tr = ptr @ rest" "\<forall>e\<in>set rest. \<not> isPollEffect e" "(r = None) = (pr = None)"
    by (elim exE conjE)
  have 1: "tr = GenerateVideosCall ?req # concat (map pollRound ops) @ rest"
    using shape rest(1) by simp
  have 2: "r \<noteq> None \<longrightarrow> pollEnds (lastAnswer ?g 0 op0 ops)"
    using ending rest(3) by (auto split: option.splits)
  have 3: "r = None \<longrightarrow> length ops = fuel \<and> \<not> pollEnds (lastAnswer ?g 0 op0 ops)"
    using ending rest(3) by (auto split: option.splits)
  have 4: "r \<noteq> None \<longrightarrow>
      (\<forall>m. generateVideoFromFrame (fuel + m) apiKey svc imageData w h = (tr, r))"
  proof (intro impI allI)
    fix m assume "r \<noteq> None"
    with rest(3) have "pr \<noteq> None" by simp
    then show "generateVideoFromFrame (fuel + m) apiKey svc imageData w h = (tr, r)"
      by (rule stable)
  qed
  show ?thesis
    by (rule exI [of _ ops], rule exI [of _ rest])
       (intro conjI 1 pending first chain done0 atleast 2 3 rest(2) 4)
qed

theorem polling_queries_witness:
  "truthy (Some ''k'')
   \<and> generateVideos stagedService (videoRequest jpegFrame 1280 720) = Inr pendingOp
   \<and> generateVideoFromFrame 5 (Some ''k'') stagedService jpegFrame 1280 720
       = ([GenerateVideosCall (videoRequest jpegFrame 1280 720),
           SetTimeout 10000, GetVideosOperationCall pendingOp,
           SetTimeout 10000, GetVideosOperationCall runningOp,
           FetchCall ''https://v/1?alt=media&key=k''],
          Some (Inr ''VIDEO''))
   \<and> answerChain (getVideosOperation stagedService) 0 [pendingOp, runningOp]
   \<and> pollEnds (lastAnswer (getVideosOperation stagedService) 0 pendingOp [pendingOp, runningOp])
   \<and> (\<exists>ops rest.
         [GenerateVideosCall (videoRequest jpegFrame 1280 720),
          SetTimeout 10000, GetVideosOperationCall pendingOp,
          SetTimeout 10000, GetVideosOperationCall runningOp,
          FetchCall ''https://v/1?alt=media&key=k'']
           = GenerateVideosCall (videoRequest jpegFrame 1280 720) # concat (map pollRound ops) @ rest
         \<and> (\<forall>q\<in>set ops. \<not> op_done q) \<and> ops \<noteq> [] \<and> hd ops = pendingOp
         \<and> answerChain (getVideosOperation stagedService) 0 ops
         \<and> pollEnds (lastAnswer (getVideosOperation stagedService) 0 pendingOp ops)
         \<and> (\<forall>e\<in>set rest. \<not> isPollEffect e))"
proof -
  have k: "truthy (Some ''k'')" by (simp add: truthy_def)
  have s: "generateVideos stagedService (videoRequest jpegFrame 1280 720) = Inr pendingOp"
    by (simp add: stagedService_def answering_def)
  have r: "generateVideoFromFrame 5 (Some ''k'') stagedService jpegFrame 1280 720
       = ([GenerateVideosCall (videoRequest jpegFrame 1280 720),
           SetTimeout 10000, GetVideosOperationCall pendingOp,
           SetTimeout 10000, GetVideosOperationCall runningOp,
           FetchCall ''https://v/1?alt=media&key=k''],
          Some (Inr ''VIDEO''))"
    by code_simp
  have c: "answerChain (getVideosOperation stagedService) 0 [pendingOp, runningOp]"
    by (simp add: stagedService_def stagedQuery_def)
  have e: "pollEnds (lastAnswer (getVideosOperation stagedService) 0 pendingOp [pendingOp, runningOp])"
    by (simp add: lastAnswer_def pollEnds_def stagedService_def stagedQuery_def finishedOp_def)
  have p: "\<not> op_done pendingOp \<and> (0::nat) < 5" by (simp add: pendingOp_def)
  from polling_queries [OF k s r] p
  have "\<exists>ops rest.
         [GenerateVideosCall (videoRequest jpegFrame 1280 720),
          SetTimeout 10000, GetVideosOperationCall pendingOp,
          SetTimeout 10000, GetVideosOperationCall runningOp,
          FetchCall ''https://v/1?alt=media&key=k'']
           = GenerateVideosCall (videoRequest jpegFrame 1280 720) # concat (map pollRound ops) @ rest
         \<and> (\<forall>q\<in>set ops. \<not> op_done q) \<and> ops \<noteq> [] \<and> hd ops = pendingOp
         \<and> answerChain (getVideosOperation stagedService) 0 ops
         \<and> pollEnds (lastAnswer (getVideosOperation stagedService) 0 pendingOp ops)
         \<and> (\<forall>e\<in>set rest. \<not> isPollEffect e)"
    by (elim exE conjE) (intro exI conjI, simp_all)
  with k s r c e show ?thesis by (intro conjI)
qed

text \<open>
  C1, as stated, fails: a submission that already reports the job done is followed by no
  status query at all.
\<close>

theorem no_query_after_done_submission:
  "generateVideos instantService (videoRequest jpegFrame 1280 720) = Inr finishedOp
   \<and> generateVideoFromFrame 5 (Some ''k'') instantService jpegFrame 1280 720
       = ([GenerateVideosCall (videoRequest jpegFrame 1280 720),
           FetchCall ''https://v/1?alt=media&key=k''],
          Some (Inr ''VIDEO''))
   \<and> filter isPollEffect
         (fst (generateVideoFromFrame 5 (Some ''k'') instantService jpegFrame 1280 720)) = []"
  by code_simp







text \<open>
  C5 (amended).  When the job is done and exposes no download link, the client raises the
  missing-link error inside its \<open>try\<close> block, writes it to the console and rejects to its
  caller with the generic error \<open>Failed to process video with Veo API.\<close>  When the download
  answers with a non-success response, the client writes the body to the console, raises an
  error whose message carries the status, writes that to the console and rejects to its
  caller with the same generic error.
\<close>

theorem done_job_retrieval_failures:
  assumes key: "truthy apiKey"
    and sub: "generateVideos svc (videoRequest imageData w h) = Inr op0"
    and poll: "pollLoop fuel (getVideosOperation svc) 0 op0
                 [GenerateVideosCall (videoRequest imageData w h)] = (ptr, Some (Inr operation))"
  shows "(\<not> truthy (downloadLinkOf operation) \<longrightarrow>
            generateVideoFromFrame fuel apiKey svc imageData w h
              = (ptr @ [ConsoleError ''Error calling Veo API:'' (LErr missingLinkError)],
                 Some (Inl (Error ''Failed to process video with Veo API.''))))
       \<and> (truthy (downloadLinkOf operation) \<longrightarrow>
            fetch svc (the (downloadLinkOf operation) @ ''&key='' @ the apiKey) = Inr resp \<longrightarrow>
            \<not> ok resp \<longrightarrow> responseText resp = Inr body \<longrightarrow>
            generateVideoFromFrame fuel apiKey svc imageData w h
              = (ptr @ [FetchCall (the (downloadLinkOf operation) @ ''&key='' @ the apiKey),
                        ConsoleError ''Failed to download video:'' (LStr body),
                        ConsoleError ''Error calling Veo API:''
                          (LErr (downloadError (status resp)))],
                 Some (Inl (Error ''Failed to process video with Veo API.''))))"
proof (intro conjI impI)
  note u = generate_unfold [OF key sub poll]
  assume "\<not> truthy (downloadLinkOf operation)"
  then have "download (the apiKey) (fetch svc) operation = ([], Inl missingLinkError)"
    by (simp add: download_def)
  with u not_found_missing_link
  show "generateVideoFromFrame fuel apiKey svc imageData w h
          = (ptr @ [ConsoleError ''Error calling Veo API:'' (LErr missingLinkError)],
             Some (Inl (Error ''Failed to process video with Veo API.'')))"
    by (simp add: catchBlock_def)
next
  note u = generate_unfold [OF key sub poll]
  let ?url = "the (downloadLinkOf operation) @ ''&key='' @ the apiKey"
  assume "truthy (downloadLinkOf operation)" and "fetch svc ?url = Inr resp"
    and "\<not> ok resp" and "responseText resp = Inr body"
  then have "download (the apiKey) (fetch svc) operation
               = ([FetchCall ?url, ConsoleError ''Failed to download video:'' (LStr body)],
                  Inl (downloadError (status resp)))"
    by (simp add: download_def)
  with u not_found_download_error [of "status resp"]
  show "generateVideoFromFrame fuel apiKey svc imageData w h
          = (ptr @ [FetchCall ?url, ConsoleError ''Failed to download video:'' (LStr body),
                    ConsoleError ''Error calling Veo API:'' (LErr (downloadError (status resp)))],
             Some (Inl (Error ''Failed to process video with Veo API.'')))"
    by (simp add: catchBlock_def)
qed

theorem done_job_retrieval_failures_witness:
  "generateVideoFromFrame 5 (Some ''k'') noLinkService jpegFrame 1280 720
     = ([GenerateVideosCall (videoRequest jpegFrame 1280 720),
         ConsoleError ''Error calling Veo API:'' (LErr missingLinkError)],
        Some (Inl (Error ''Failed to process video with Veo API.'')))
   \<and> generateVideoFromFrame 5 (Some ''k'') goneService jpegFrame 1280 720
     = ([GenerateVideosCall (videoRequest jpegFrame 1280 720),
         FetchCall ''https://v/1?alt=media&key=k'',
         ConsoleError ''Failed to download video:'' (LStr ''gone''),
         ConsoleError ''Error calling Veo API:'' (LErr (downloadError 404))],
        Some (Inl (Error ''Failed to process video with Veo API.'')))"
proof -
  let ?req = "videoRequest jpegFrame 1280 720"
  have k: "truthy (Some ''k'')" by (simp add: truthy_def)
  have s1: "generateVideos noLinkService ?req = Inr emptyOp"
    by (simp add: noLinkService_def answering_def)
  have p1: "pollLoop 5 (getVideosOperation noLinkService) 0 emptyOp [GenerateVideosCall ?req]
              = ([GenerateVideosCall ?req], Some (Inr emptyOp))"
    by (simp add: pollLoop_done emptyOp_def)
  have l1: "\<not> truthy (downloadLinkOf emptyOp)"
    by (simp add: downloadLinkOf_def emptyOp_def truthy_def)
  have s2: "generateVideos goneService ?req = Inr finishedOp"
    by (simp add: goneService_def answering_def)
  have p2: "pollLoop 5 (getVideosOperation goneService) 0 finishedOp [GenerateVideosCall ?req]
              = ([GenerateVideosCall ?req], Some (Inr finishedOp))"
    by (simp add: pollLoop_done finishedOp_def)
  have l2: "downloadLinkOf finishedOp = Some ''https://v/1?alt=media''"
    by (simp add: downloadLinkOf_def finishedOp_def)
  have f2: "fetch goneService (the (downloadLinkOf finishedOp) @ ''&key='' @ the (Some ''k''))
              = Inr notFoundResponse"
    by (simp add: goneService_def answering_def)
  have n2: "\<not> ok notFoundResponse" "responseText notFoundResponse = Inr ''gone''"
           "status notFoundResponse = 404"
    by (simp_all add: notFoundResponse_def)
  from done_job_retrieval_failures [OF k s1 p1] l1
  have t1: "generateVideoFromFrame 5 (Some ''k'') noLinkService jpegFrame 1280 720
     = ([GenerateVideosCall ?req, ConsoleError ''Error calling Veo API:'' (LErr missingLinkError)],
        Some (Inl (Error ''Failed to process video with Veo API.'')))"
    by simp
  from done_job_retrieval_failures [OF k s2 p2, of notFoundResponse "''gone''"] f2 n2 l2
  have t2: "generateVideoFromFrame 5 (Some ''k'') goneService jpegFrame 1280 720
     = ([GenerateVideosCall ?req,
         FetchCall ''https://v/1?alt=media&key=k'',
         ConsoleError ''Failed to download video:'' (LStr ''gone''),
         ConsoleError ''Error calling Veo API:'' (LErr (downloadError 404))],
        Some (Inl (Error ''Failed to process video with Veo API.'')))"
    by (simp add: truthy_def)
  from t1 t2 show ?thesis by simp
qed

text \<open>
  C5, as stated, fails: for a done job without a download link, and for a download that
  answers 404, the caller receives the generic error, not the missing-link error and not an
  error with the status.
\<close>

theorem retrieval_failures_reach_caller_as_generic:
  "snd (generateVideoFromFrame 5 (Some ''k'') noLinkService jpegFrame 1280 720)
     = Some (Inl (Error ''Failed to process video with Veo API.''))
   \<and> snd (generateVideoFromFrame 5 (Some ''k'') noLinkService jpegFrame 1280 720)
     \<noteq> Some (Inl missingLinkError)
   \<and> snd (generateVideoFromFrame 5 (Some ''k'') goneService jpegFrame 1280 720)
     = Some (Inl (Error ''Failed to process video with Veo API.''))
   \<and> snd (generateVideoFromFrame 5 (Some ''k'') goneService jpegFrame 1280 720)
     \<noteq> Some (Inl (downloadError 404))"
  by code_simp

section \<open>Properties of the frame extractor\<close>

lemma invariant_initial: "0 \<le> dur \<Longrightarrow> frameInvariant w h dur (initialState u w h dur)"
  by (simp add: frameInvariant_def initialState_def)

lemma invariant_dispatch:
  assumes "frameInvariant w h dur st"
    and "case e of Seeked _ \<Rightarrow> seeking (element st) | Played d \<Rightarrow> 0 \<le> d | _ \<Rightarrow> True"
  shows "frameInvariant w h dur (dispatch e st)"
proof (cases e)
  case LoadedData
  with assms show ?thesis
    by (auto simp: frameInvariant_def onloadeddata_def setCurrentTime_def)
next
  case (Seeked canvas)
  with assms show ?thesis
    by (cases canvas)
       (auto simp: frameInvariant_def onseeked_def Let_def cleanup_def resolve_def reject_def
             split: option.splits)
next
  case (ErrorEvent err)
  with assms show ?thesis
    by (auto simp: frameInvariant_def onerror_def cleanup_def reject_def split: option.splits)
next
  case (PlayRejected err)
  with assms show ?thesis
    by (auto simp: frameInvariant_def onPlayRejected_def cleanup_def reject_def split: option.splits)
next
  case (Played d)
  with assms show ?thesis
    by (auto simp: frameInvariant_def advance_def)
qed

lemma invariant_run:
  "seekedAfterSeek st events \<Longrightarrow> frameInvariant w h dur st \<Longrightarrow>
   frameInvariant w h dur (runEvents events st)"
proof (induction events arbitrary: st)
  case Nil
  then show ?case by simp
next
  case (Cons e events)
  from Cons.prems have "frameInvariant w h dur (dispatch e st)"
    by (intro invariant_dispatch) simp_all
  with Cons show ?case by simp
qed

text \<open>
  C6 (amended).  For every event sequence of a real element, a frame that
  \<open>extractFirstFrame\<close> resolves with has the native width and height of the video.  Every
  frame painted is painted at the position the element has when \<open>seeked\<close> fires, which is at
  least 0.1 s or, for a shorter video, its length: the seek to 0.1 s is moved back to the
  end of a shorter video and playback can only move the position forward.  So the offset is
  positive for every video of positive length.  A video that loads and completes the seek
  does resolve, with these dimensions, after playback of any length in between.
\<close>

theorem frame_dimensions_and_offset:
  "(0 \<le> dur \<longrightarrow> seekedAfterSeek (initialState u w h dur) events \<longrightarrow>
      settled (extractFirstFrame u w h dur events) = Some (Resolved frame) \<longrightarrow>
      frameWidth frame = w \<and> frameHeight frame = h
      \<and> (\<exists>t. DrawImage t w h \<in> set (domEffects (extractFirstFrame u w h dur events)))
      \<and> (\<forall>t a b. DrawImage t a b \<in> set (domEffects (extractFirstFrame u w h dur events)) \<longrightarrow>
            min (1 / 10) dur \<le> t \<and> t \<le> dur \<and> (0 < dur \<longrightarrow> 0 < t) \<and> a = w \<and> b = h))
   \<and> seekedAfterSeek (initialState u w h dur) [LoadedData, Played d, Seeked (Some dataUrl)]
        = (0 \<le> d)
   \<and> settled (extractFirstFrame u w h dur [LoadedData, Played d, Seeked (Some dataUrl)])
       = Some (Resolved \<lparr> frameData = secondField dataUrl, frameMimeType = ''image/jpeg'',
                           frameWidth = w, frameHeight = h \<rparr>)
   \<and> domEffects (extractFirstFrame u w h dur [LoadedData, Played d, Seeked (Some dataUrl)])
       = [DrawImage (min dur (max 0 (min (1 / 10) dur) + d)) w h,
          Pause, RemoveSrc, Load, RevokeObjectURL u,
          ResolveCall \<lparr> frameData = secondField dataUrl, frameMimeType = ''image/jpeg'',
                        frameWidth = w, frameHeight = h \<rparr>]"
proof (intro conjI impI)
  assume d: "0 \<le> dur"
     and a: "seekedAfterSeek (initialState u w h dur) events"
     and s: "settled (extractFirstFrame u w h dur events) = Some (Resolved frame)"
  from invariant_run [OF a invariant_initial [OF d]]
  have inv: "frameInvariant w h dur (extractFirstFrame u w h dur events)"
    by (simp add: extractFirstFrame_def)
  from inv s show "frameWidth frame = w" by (simp add: frameInvariant_def)
  from inv s show "frameHeight frame = h" by (simp add: frameInvariant_def)
  from inv s show "\<exists>t. DrawImage t w h \<in> set (domEffects (extractFirstFrame u w h dur events))"
    unfolding frameInvariant_def by blast
  show "\<forall>t a b. DrawImage t a b \<in> set (domEffects (extractFirstFrame u w h dur events)) \<longrightarrow>
            min (1 / 10) dur \<le> t \<and> t \<le> dur \<and> (0 < dur \<longrightarrow> 0 < t) \<and> a = w \<and> b = h"
  proof (intro allI impI)
    fix t a b
    assume "DrawImage t a b \<in> set (domEffects (extractFirstFrame u w h dur events))"
    with inv have b: "min (1 / 10) dur \<le> t \<and> t \<le> dur \<and> a = w \<and> b = h"
      unfolding frameInvariant_def by blast
    moreover have "0 < t" if "0 < dur"
    proof -
      from that have m: "0 < min (1 / 10) dur" by simp
      from b have "min (1 / 10) dur \<le> t" by blast
      with m show ?thesis by (rule less_le_trans)
    qed
    ultimately show "min (1 / 10) dur \<le> t \<and> t \<le> dur \<and> (0 < dur \<longrightarrow> 0 < t) \<and> a = w \<and> b = h"
      by blast
  qed
next
  show "seekedAfterSeek (initialState u w h dur) [LoadedData, Played d, Seeked (Some dataUrl)]
          = (0 \<le> d)"
    by (simp add: initialState_def onloadeddata_def setCurrentTime_def advance_def)
next
  show "settled (extractFirstFrame u w h dur [LoadedData, Played d, Seeked (Some dataUrl)])
       = Some (Resolved \<lparr> frameData = secondField dataUrl, frameMimeType = ''image/jpeg'',
                           frameWidth = w, frameHeight = h \<rparr>)"
    by (simp add: extractFirstFrame_def initialState_def onloadeddata_def setCurrentTime_def
                  advance_def onseeked_def Let_def cleanup_def resolve_def)
next
  show "domEffects (extractFirstFrame u w h dur [LoadedData, Played d, Seeked (Some dataUrl)])
       = [DrawImage (min dur (max 0 (min (1 / 10) dur) + d)) w h,
          Pause, RemoveSrc, Load, RevokeObjectURL u,
          ResolveCall \<lparr> frameData = secondField dataUrl, frameMimeType = ''image/jpeg'',
                        frameWidth = w, frameHeight = h \<rparr>]"
    by (simp add: extractFirstFrame_def initialState_def onloadeddata_def setCurrentTime_def
                  advance_def onseeked_def Let_def cleanup_def resolve_def)
qed

theorem frame_dimensions_and_offset_witness:
  "(0::rat) \<le> 12
   \<and> seekedAfterSeek (initialState ''blob:v'' 1280 720 12)
         [LoadedData, Played (1 / 2400), Seeked (Some ''data:image/jpeg;base64,QUJD'')]
   \<and> settled (extractFirstFrame ''blob:v'' 1280 720 12
                [LoadedData, Played (1 / 2400), Seeked (Some ''data:image/jpeg;base64,QUJD'')])
       = Some (Resolved \<lparr> frameData = Some ''QUJD'', frameMimeType = ''image/jpeg'',
                           frameWidth = 1280, frameHeight = 720 \<rparr>)
   \<and> DrawImage (241 / 2400) 1280 720
       \<in> set (domEffects (extractFirstFrame ''blob:v'' 1280 720 12
                 [LoadedData, Played (1 / 2400), Seeked (Some ''data:image/jpeg;base64,QUJD'')]))
   \<and> min (1 / 10) 12 \<le> (241 / 2400 :: rat) \<and> (241 / 2400 :: rat) \<le> 12
   \<and> (0::rat) < 241 / 2400"
proof -
  let ?ev = "[LoadedData, Played (1 / 2400), Seeked (Some ''data:image/jpeg;base64,QUJD'')]"
  let ?f = "\<lparr> frameData = Some ''QUJD'', frameMimeType = ''image/jpeg'',
             frameWidth = 1280, frameHeight = 720 \<rparr>"
  note t = frame_dimensions_and_offset
             [of 12 "''blob:v''" 1280 720 ?ev ?f "1 / 2400" "''data:image/jpeg;base64,QUJD''"]
  have d: "secondField ''data:image/jpeg;base64,QUJD'' = Some ''QUJD''"
    by (simp add: secondField_def)
  have n: "(0::rat) \<le> 12" "(0::rat) < 12" "(0::rat) \<le> 1 / 2400" by simp_all
  from t n have a: "seekedAfterSeek (initialState ''blob:v'' 1280 720 12) ?ev" by blast
  from t d have s: "settled (extractFirstFrame ''blob:v'' 1280 720 12 ?ev) = Some (Resolved ?f)"
    by simp
  from t have "domEffects (extractFirstFrame ''blob:v'' 1280 720 12 ?ev)
       = [DrawImage (min 12 (max 0 (min (1 / 10) 12) + 1 / 2400)) 1280 720,
          Pause, RemoveSrc, Load, RevokeObjectURL ''blob:v'',
          ResolveCall \<lparr> frameData = secondField ''data:image/jpeg;base64,QUJD'',
                        frameMimeType = ''image/jpeg'', frameWidth = 1280, frameHeight = 720 \<rparr>]"
    by blast
  then have m: "DrawImage (241 / 2400) 1280 720
                  \<in> set (domEffects (extractFirstFrame ''blob:v'' 1280 720 12 ?ev))"
    by simp
  from t n(1) a s m
  have "min (1 / 10) 12 \<le> (241 / 2400 :: rat) \<and> (241 / 2400 :: rat) \<le> 12
        \<and> ((0::rat) < 12 \<longrightarrow> (0::rat) < 241 / 2400)"
    by blast
  with n a s m show ?thesis by blast
qed

text \<open>
  C6, as stated, fails: for a video of length zero the seek to 0.1 s ends at position 0, and
  the frame that the call resolves with is painted at offset 0 exactly.
\<close>

theorem zero_length_video_painted_at_zero:
  "seekedAfterSeek (initialState ''blob:v'' 1280 720 0)
     [LoadedData, Seeked (Some ''data:image/jpeg;base64,QUJD'')]
   \<and> settled (extractFirstFrame ''blob:v'' 1280 720 0
                [LoadedData, Seeked (Some ''data:image/jpeg;base64,QUJD'')])
       = Some (Resolved \<lparr> frameData = Some ''QUJD'', frameMimeType = ''image/jpeg'',
                           frameWidth = 1280, frameHeight = 720 \<rparr>)
   \<and> domEffects (extractFirstFrame ''blob:v'' 1280 720 0
                   [LoadedData, Seeked (Some ''data:image/jpeg;base64,QUJD'')])
       = [DrawImage 0 1280 720, Pause, RemoveSrc, Load, RevokeObjectURL ''blob:v'',
          ResolveCall \<lparr> frameData = Some ''QUJD'', frameMimeType = ''image/jpeg'',
                        frameWidth = 1280, frameHeight = 720 \<rparr>]"
  by (simp add: extractFirstFrame_def initialState_def onloadeddata_def setCurrentTime_def
                onseeked_def Let_def cleanup_def resolve_def secondField_def)

lemma settled_once: "settled st = Some x \<Longrightarrow> settled (runEvents events st) = Some x"
proof (induction events arbitrary: st)
  case Nil
  then show ?case by simp
next
  case (Cons e events)
  from Cons.prems have "settled (dispatch e st) = Some x"
    by (cases e)
       (auto simp: onloadeddata_def onseeked_def onerror_def onPlayRejected_def Let_def
                   cleanup_def resolve_def reject_def split: option.splits)
  with Cons.IH show ?case by simp
qed

lemma guard_closed:
  "resolved st \<Longrightarrow>
   resolved (runEvents events st) \<and> domEffects (runEvents events st) = domEffects st
   \<and> settled (runEvents events st) = settled st"
proof (induction events arbitrary: st)
  case Nil
  then show ?case by simp
next
  case (Cons e events)
  from Cons.prems
  have "resolved (dispatch e st) \<and> domEffects (dispatch e st) = domEffects st
        \<and> settled (dispatch e st) = settled st"
    by (cases e) (simp_all add: onloadeddata_def onseeked_def onerror_def onPlayRejected_def)
  with Cons.IH [of "dispatch e st"] show ?case by simp
qed

text \<open>
  C7.  The handlers of \<open>error\<close> and of the rejected \<open>play()\<close> test the guard but do not set
  it: for a video that fails to decode, where the element fires \<open>error\<close> and the promise of
  \<open>play()\<close> rejects, both completion bodies run.  The cleanup runs twice, \<open>reject\<close> is
  called twice and the guard is still open afterwards; only the promise keeps the first
  rejection.  The handler of \<open>seeked\<close> does set the guard, and after it every event is
  ignored (\<open>guard_closed\<close>).
\<close>

theorem error_paths_leave_guard_open:
  "domEffects (extractFirstFrame ''blob:v'' 1280 720 dur
                 [ErrorEvent (Error ''decode''), PlayRejected (Error ''abort'')])
     = [Pause, RemoveSrc, Load, RevokeObjectURL ''blob:v'', RejectCall (Error ''decode''),
        Pause, RemoveSrc, Load, RevokeObjectURL ''blob:v'', RejectCall (Error ''abort'')]
   \<and> completionCalls (extractFirstFrame ''blob:v'' 1280 720 dur
                 [ErrorEvent (Error ''decode''), PlayRejected (Error ''abort'')]) = 2
   \<and> resolved (extractFirstFrame ''blob:v'' 1280 720 dur
                 [ErrorEvent (Error ''decode''), PlayRejected (Error ''abort'')]) = False
   \<and> settled (extractFirstFrame ''blob:v'' 1280 720 dur
                 [ErrorEvent (Error ''decode''), PlayRejected (Error ''abort'')])
       = Some (Rejected (Error ''decode''))"
  by (simp add: extractFirstFrame_def initialState_def onerror_def onPlayRejected_def
                cleanup_def reject_def completionCalls_def)

section \<open>Properties of the application state\<close>

text \<open>
  C8.  From any state \<open>handleReset\<close> leads to the idle state: no asset, no error, not
  loading.  It revokes exactly the object URLs the state held, and the state it leads to
  holds none.  A second \<open>handleReset\<close> changes nothing and revokes nothing.
\<close>

theorem reset_idle_idempotent:
  "idle (snd (handleReset s))
   \<and> revokedUrls (fst (handleReset s)) = heldUrls s
   \<and> heldUrls (snd (handleReset s)) = {}
   \<and> handleReset (snd (handleReset s)) = ([], snd (handleReset s))"
  by (auto simp: handleReset_def idle_def revokedUrls_def heldUrls_def truthy_def
           split: option.splits)

theorem reset_idle_idempotent_witness:
  "fst (handleReset busyState)
     = [RevokeURL ''blob:1'', RevokeURL ''data:image/png;base64,QUJD'', RevokeURL ''blob:2'',
        RevokeURL ''blob:3'']
   \<and> idle (snd (handleReset busyState))
   \<and> handleReset (snd (handleReset busyState)) = ([], snd (handleReset busyState))"
proof -
  have "fst (handleReset busyState)
     = [RevokeURL ''blob:1'', RevokeURL ''data:image/png;base64,QUJD'', RevokeURL ''blob:2'',
        RevokeURL ''blob:3'']"
    by (simp add: handleReset_def busyState_def truthy_def)
  with reset_idle_idempotent [of busyState] show ?thesis by blast
qed

section \<open>The mime type of the results\<close>

lemma scanParts_retag: "scanParts (map (retagPart f) ps) = scanParts ps"
  by (induction ps) (auto simp: retagPart_def split: option.splits)

lemma firstCandidateParts_retag:
  "firstCandidateParts (retagResponse f r) = map (retagPart f) (firstCandidateParts r)"
  by (auto simp: firstCandidateParts_def retagResponse_def split: option.splits list.splits)

lemma removeWatermark_retag:
  "g' (editRequest img) = map_sum id (retagResponse f) (g (editRequest img)) \<Longrightarrow>
   removeWatermarkFromImage key g' img = removeWatermarkFromImage key g img"
  by (cases "g (editRequest img)")
     (simp_all add: removeWatermarkFromImage_def firstCandidateParts_retag scanParts_retag)

lemma download_no_submit: "e \<in> set (fst (download key f operation)) \<Longrightarrow> \<not> isSubmit e"
  by (auto simp: download_def Let_def split: sum.splits if_splits)

lemma pollLoop_submits:
  "pollLoop fuel g k operation tr = (tr', r) \<Longrightarrow> filter isSubmit tr' = filter isSubmit tr"
  by (drule pollLoop_shape) (auto simp: pollRound_def filter_concat o_def)

lemma generate_calls:
  assumes "GenerateVideosCall req \<in> set (fst (generateVideoFromFrame fuel key svc img w h))"
  shows "req = videoRequest img w h"
proof -
  have "filter isSubmit (fst (generateVideoFromFrame fuel key svc img w h))
          = (if truthy key then [GenerateVideosCall (videoRequest img w h)] else [])"
  proof (cases "truthy key")
    case False
    then show ?thesis by (simp add: generateVideoFromFrame_def)
  next
    case key: True
    show ?thesis
    proof (cases "generateVideos svc (videoRequest img w h)")
      case (Inl err)
      with key show ?thesis
        by (simp add: generateVideoFromFrame_def tryBody_def catchBlock_def)
    next
      case (Inr op0)
      obtain ptr pr where poll:
        "pollLoop fuel (getVideosOperation svc) 0 op0 [GenerateVideosCall (videoRequest img w h)]
           = (ptr, pr)"
        by (cases "pollLoop fuel (getVideosOperation svc) 0 op0
                     [GenerateVideosCall (videoRequest img w h)]")
      from pollLoop_submits [OF poll]
      have p: "filter isSubmit ptr = [GenerateVideosCall (videoRequest img w h)]" by simp
      have d: "filter isSubmit (fst (download (the key) (fetch svc) operation)) = []" for operation
        using download_no_submit by (simp add: filter_empty_conv)
      from generate_unfold [OF key Inr poll] p d key show ?thesis
        by (auto simp: catchBlock_def split: option.splits sum.splits)
    qed
  qed
  moreover from assms
  have "GenerateVideosCall req \<in> set (filter isSubmit (fst (generateVideoFromFrame fuel key svc img w h)))"
    by simp
  ultimately show ?thesis by (simp split: if_splits)
qed

lemma image_path_mime:
  assumes "originalImage s = Some orig"
    and "processedImageUrl (snd (handleRemoveImageWatermark reader key g s)) = Some u'"
  shows "\<exists>enc d. fileToBase64 reader (assetFile orig) = Inr enc
           \<and> mimeType enc = fileType (assetFile orig)
           \<and> snd (removeWatermarkFromImage key g enc) = Inr (Some d)
           \<and> u' = ''data:'' @ mimeType enc @ '';base64,'' @ d"
proof (cases "fileToBase64 reader (assetFile orig)")
  case (Inl err)
  with assms show ?thesis
    by (simp add: handleRemoveImageWatermark_def imageCatch_def)
next
  case (Inr enc)
  then have m: "mimeType enc = fileType (assetFile orig)"
    by (auto simp: fileToBase64_def split: sum.splits ReaderResult.splits)
  have same: "\<lparr> data = data enc, mimeType = mimeType enc \<rparr> = enc" by simp
  obtain lg r where rw: "removeWatermarkFromImage key g enc = (lg, r)"
    by (cases "removeWatermarkFromImage key g enc")
  show ?thesis
  proof (cases r)
    case (Inl err)
    with assms Inr rw show ?thesis
      by (simp add: handleRemoveImageWatermark_def imageCatch_def same)
  next
    case res: (Inr resultBase64)
    show ?thesis
    proof (cases "truthy resultBase64")
      case False
      with assms Inr rw res show ?thesis
        by (simp add: handleRemoveImageWatermark_def imageCatch_def same)
    next
      case True
      then obtain d where d: "resultBase64 = Some d" by (cases resultBase64) (simp_all add: truthy_def)
      with True assms Inr rw res have "u' = ''data:'' @ mimeType enc @ '';base64,'' @ d"
        by (simp add: handleRemoveImageWatermark_def same)
      with Inr m rw res d show ?thesis by simp
    qed
  qed
qed


lemma video_path_mime:
  assumes run: "handleRemoveVideoWatermark fuel extractor key g svc mk s = Some (es, s')"
    and orig: "originalVideo s = Some orig"
    and fr: "extractor (assetFile orig) = Resolved frame"
    and call: "VideoClient (GenerateVideosCall req) \<in> set es"
  shows "imageMimeType (image req) = frameMimeType frame
       \<and> (\<exists>d. snd (removeWatermarkFromImage key g
                       \<lparr> data = frameData frame, mimeType = frameMimeType frame \<rparr>) = Inr (Some d)
              \<and> imageBytes (image req) = Some d)"
proof -
  let ?in = "\<lparr> data = frameData frame, mimeType = frameMimeType frame \<rparr>"
  obtain lg r where rw: "removeWatermarkFromImage key g ?in = (lg, r)"
    by (cases "removeWatermarkFromImage key g ?in")
  have lgs: "VideoClient x \<notin> set (map (\<lambda>(l, a). ImageClientLog l a) lg)" for x
    by auto
  show ?thesis
  proof (cases r)
    case (Inl err)
    with run orig fr rw call lgs show ?thesis
      by (auto simp: handleRemoveVideoWatermark_def videoCatch_def Let_def split: if_splits)
  next
    case res: (Inr clean)
    show ?thesis
    proof (cases "truthy clean")
      case False
      with run orig fr rw res call lgs show ?thesis
        by (auto simp: handleRemoveVideoWatermark_def videoCatch_def Let_def split: if_splits)
    next
      case True
      then obtain d where d: "clean = Some d" by (cases clean) (simp_all add: truthy_def)
      let ?seed = "\<lparr> data = clean, mimeType = frameMimeType frame \<rparr>"
      obtain tr vr where gen:
        "generateVideoFromFrame fuel key svc ?seed (int (frameWidth frame)) (int (frameHeight frame))
           = (tr, vr)"
        by (cases "generateVideoFromFrame fuel key svc ?seed (int (frameWidth frame))
                     (int (frameHeight frame))")
      have "GenerateVideosCall req \<in> set tr"
      proof (cases vr)
        case None
        with run orig fr rw res True gen show ?thesis
          by (simp add: handleRemoveVideoWatermark_def Let_def)
      next
        case (Some x)
        with run orig fr rw res True gen call lgs show ?thesis
          by (cases x)
             (auto simp: handleRemoveVideoWatermark_def videoCatch_def Let_def split: if_splits)
      qed
      with gen have "GenerateVideosCall req
          \<in> set (fst (generateVideoFromFrame fuel key svc ?seed (int (frameWidth frame))
                         (int (frameHeight frame))))"
        by simp
      then have "req = videoRequest ?seed (int (frameWidth frame)) (int (frameHeight frame))"
        by (rule generate_calls)
      with rw res d show ?thesis by (simp add: videoRequest_def)
    qed
  qed
qed


text \<open>
  C10.  \<open>removeWatermarkFromImage\<close> returns the same for two responses that differ only in
  the mime types of their blobs: the reported mime type is discarded.  In the image path a
  result URL is built from the mime type of the encoded input file, which is the type of
  the file.  In the video path every request submitted to the video service carries the
  mime type of the extracted frame together with the cleaned data.
\<close>

theorem output_mime_is_input_mime:
  "(g' (editRequest img) = map_sum id (retagResponse f) (g (editRequest img)) \<longrightarrow>
      removeWatermarkFromImage key g' img = removeWatermarkFromImage key g img)
   \<and> (originalImage s = Some orig \<longrightarrow>
        processedImageUrl (snd (handleRemoveImageWatermark reader key g s)) = Some u' \<longrightarrow>
        (\<exists>enc d. fileToBase64 reader (assetFile orig) = Inr enc
           \<and> mimeType enc = fileType (assetFile orig)
           \<and> snd (removeWatermarkFromImage key g enc) = Inr (Some d)
           \<and> u' = ''data:'' @ mimeType enc @ '';base64,'' @ d))
   \<and> (handleRemoveVideoWatermark fuel extractor key g svc mk s = Some (es, s') \<longrightarrow>
        originalVideo s = Some origv \<longrightarrow> extractor (assetFile origv) = Resolved frame \<longrightarrow>
        VideoClient (GenerateVideosCall req) \<in> set es \<longrightarrow>
        imageMimeType (image req) = frameMimeType frame
        \<and> (\<exists>d. snd (removeWatermarkFromImage key g
                        \<lparr> data = frameData frame, mimeType = frameMimeType frame \<rparr>)
                 = Inr (Some d)
               \<and> imageBytes (image req) = Some d))"
proof (intro conjI impI)
  assume "g' (editRequest img) = map_sum id (retagResponse f) (g (editRequest img))"
  then show "removeWatermarkFromImage key g' img = removeWatermarkFromImage key g img"
    by (rule removeWatermark_retag)
next
  assume "originalImage s = Some orig"
    and "processedImageUrl (snd (handleRemoveImageWatermark reader key g s)) = Some u'"
  then show "\<exists>enc d. fileToBase64 reader (assetFile orig) = Inr enc
           \<and> mimeType enc = fileType (assetFile orig)
           \<and> snd (removeWatermarkFromImage key g enc) = Inr (Some d)
           \<and> u' = ''data:'' @ mimeType enc @ '';base64,'' @ d"
    by (rule image_path_mime)
next
  assume a: "handleRemoveVideoWatermark fuel extractor key g svc mk s = Some (es, s')"
    "originalVideo s = Some origv" "extractor (assetFile origv) = Resolved frame"
    "VideoClient (GenerateVideosCall req) \<in> set es"
  from video_path_mime [OF a]
  show "imageMimeType (image req) = frameMimeType frame"
    and "\<exists>d. snd (removeWatermarkFromImage key g
                        \<lparr> data = frameData frame, mimeType = frameMimeType frame \<rparr>)
                 = Inr (Some d)
               \<and> imageBytes (image req) = Some d"
    by blast+
qed

theorem output_mime_is_input_mime_witness:
  "originalImage imageLoaded = Some \<lparr> assetFile = pngFile, url = ''blob:1'' \<rparr>
   \<and> processedImageUrl (snd (handleRemoveImageWatermark (readsAs ''data:image/png;base64,QUJD'')
                                (Some ''k'') (answering webpAnswer) imageLoaded))
       = Some ''data:image/png;base64,WFla''
   \<and> (\<exists>enc d. fileToBase64 (readsAs ''data:image/png;base64,QUJD'') pngFile = Inr enc
         \<and> mimeType enc = ''image/png''
         \<and> ''data:image/png;base64,WFla'' = ''data:'' @ mimeType enc @ '';base64,'' @ d)
   \<and> handleRemoveVideoWatermark 5 (extracts firstFrame) (Some ''k'') (answering webpAnswer)
         instantService blobUrl videoLoaded
       = Some ([VideoClient (GenerateVideosCall
                               (videoRequest \<lparr> data = Some ''WFla'', mimeType = ''image/jpeg'' \<rparr>
                                  1280 720)),
                VideoClient (FetchCall ''https://v/1?alt=media&key=k''), CreateURL ''VIDEO''],
               videoLoaded \<lparr> processedVideoUrl := Some ''blob:out'' \<rparr>)
   \<and> imageMimeType (image (videoRequest \<lparr> data = Some ''WFla'', mimeType = ''image/jpeg'' \<rparr>
                                 1280 720))
       = frameMimeType firstFrame"
proof -
  let ?rd = "readsAs ''data:image/png;base64,QUJD''"
  let ?orig = "\<lparr> assetFile = pngFile, url = ''blob:1'' \<rparr>"
  let ?origv = "\<lparr> assetFile = mp4File, url = ''blob:2'' \<rparr>"
  let ?req = "videoRequest \<lparr> data = Some ''WFla'', mimeType = ''image/jpeg'' \<rparr> 1280 720"
  let ?es = "[VideoClient (GenerateVideosCall ?req),
              VideoClient (FetchCall ''https://v/1?alt=media&key=k''), CreateURL ''VIDEO'']"
  have o: "originalImage imageLoaded = Some ?orig"
    by (simp add: imageLoaded_def emptyState_def)
  have p: "processedImageUrl (snd (handleRemoveImageWatermark ?rd (Some ''k'')
                                      (answering webpAnswer) imageLoaded))
            = Some ''data:image/png;base64,WFla''"
    by code_simp
  have t: "fileType (assetFile ?orig) = ''image/png''" "assetFile ?orig = pngFile"
    by (simp_all add: pngFile_def)
  from output_mime_is_input_mime
         [where s = imageLoaded and orig = ?orig and reader = ?rd and key = "Some ''k''"
            and g = "answering webpAnswer" and u' = "''data:image/png;base64,WFla''"]
       o p
  have "\<exists>enc d. fileToBase64 ?rd (assetFile ?orig) = Inr enc
           \<and> mimeType enc = fileType (assetFile ?orig)
           \<and> snd (removeWatermarkFromImage (Some ''k'') (answering webpAnswer) enc) = Inr (Some d)
           \<and> ''data:image/png;base64,WFla'' = ''data:'' @ mimeType enc @ '';base64,'' @ d"
    by blast
  with t have img: "\<exists>enc d. fileToBase64 ?rd pngFile = Inr enc \<and> mimeType enc = ''image/png''
         \<and> ''data:image/png;base64,WFla'' = ''data:'' @ mimeType enc @ '';base64,'' @ d"
    by metis
  have h: "handleRemoveVideoWatermark 5 (extracts firstFrame) (Some ''k'') (answering webpAnswer)
             instantService blobUrl videoLoaded
           = Some (?es, videoLoaded \<lparr> processedVideoUrl := Some ''blob:out'' \<rparr>)"
    by code_simp
  have ov: "originalVideo videoLoaded = Some ?origv"
    by (simp add: videoLoaded_def emptyState_def)
  have ef: "extracts firstFrame (assetFile ?origv) = Resolved firstFrame"
    by (simp add: extracts_def)
  have mem: "VideoClient (GenerateVideosCall ?req) \<in> set ?es" by simp
  from output_mime_is_input_mime
         [where s = videoLoaded and fuel = 5 and extractor = "extracts firstFrame"
            and key = "Some ''k''" and g = "answering webpAnswer" and svc = instantService
            and mk = blobUrl and es = ?es
            and s' = "videoLoaded \<lparr> processedVideoUrl := Some ''blob:out'' \<rparr>"
            and origv = ?origv and frame = firstFrame and req = ?req]
       h ov ef mem
  have vid: "imageMimeType (image ?req) = frameMimeType firstFrame" by blast
  from o p img h vid show ?thesis by blast
qed

end
